theory Spec2Isabelle
  imports Main "HOL-Library.AList" "HOL-Library.Char_ord" "HOL-Library.List_Lexorder"
    "HOL-Library.Multiset"
begin

section \<open>The InfiniBand health check of gpud (components/accelerator/nvidia/infiniband)\<close>

text \<open>
  A shallow embedding of \<^verbatim>\<open>component.go\<close>: the check cycle \<^verbatim>\<open>Check\<close>, the threshold
  evaluation, the event recorder and the three analyzers over the event history.
  Go pointers that may be nil are options, Go errors are values, the event bucket (a Go
  interface) is a record of its methods over the state of the store, and the calls a cycle
  issues are collected in a list of effects. A \<^verbatim>\<open>map[string]string\<close> is an association
  list read with \<open>map_of\<close>. The methods of \<^verbatim>\<open>checkResult\<close> other than
  \<^verbatim>\<open>HealthStates\<close> are modelled on a receiver that is not nil, as \<^verbatim>\<open>Check\<close> calls them;
  on a nil receiver each of them returns at once.
\<close>

subsection \<open>Time\<close>

text \<open>
  A \<^verbatim>\<open>time.Time\<close> is the instant it denotes, in nanoseconds since the zero time; a
  \<^verbatim>\<open>time.Duration\<close> is a number of nanoseconds. \<^verbatim>\<open>Time.Sub\<close> saturates at the bounds of
  a signed 64-bit duration, as the Go library does; two times are equal when they denote
  the same instant.
\<close>

type_synonym time = int
type_synonym duration = int

definition Minute :: duration where
  "Minute = 60 * 1000000000"

definition maxDuration :: duration where
  "maxDuration = 2 ^ 63 - 1"

definition minDuration :: duration where
  "minDuration = - (2 ^ 63)"

definition time_Sub :: "time \<Rightarrow> time \<Rightarrow> duration" where
  "time_Sub t u =
     (if t - u > maxDuration then maxDuration
      else if t - u < minDuration then minDuration
      else t - u)"

definition time_Add :: "time \<Rightarrow> duration \<Rightarrow> time" where
  "time_Add t d = t + d"

definition time_IsZero :: "time \<Rightarrow> bool" where
  "time_IsZero t \<longleftrightarrow> t = 0"

subsection \<open>Data\<close>

text \<open>A Go error: its message, and whether \<^verbatim>\<open>errors.Is(e, infiniband.ErrNoIbstatCommand)\<close>.\<close>

datatype go_error = GoError (errors_Is_ErrNoIbstatCommand: bool) (err_Error: string)

datatype HealthStateType =
  HealthStateTypeHealthy | HealthStateTypeUnhealthy | HealthStateTypeUnset

datatype RepairActionType = RepairActionTypeHardwareInspection | RepairActionTypeOther string

record SuggestedActions =
  RepairActions :: "RepairActionType list"

datatype EventType = EventTypeInfo | EventTypeWarning | EventTypeOther string

record IBPort =
  Device :: string
  State :: string
  PhysicalState :: string
  Rate :: int

record IBStatPort =
  port_State :: string
  port_PhysicalState :: string
  port_Rate :: int

record IBStatCard =
  card_Device :: string
  Port1 :: IBStatPort

record IbstatOutput =
  Parsed :: "IBStatCard list"

record IBStatusDevice =
  dev_Device :: string
  dev_State :: string
  dev_PhysicalState :: string
  dev_Rate :: string
  dev_LinkLayer :: string

record IbstatusOutput =
  status_Parsed :: "IBStatusDevice list"

record ExpectedPortStates =
  AtLeastPorts :: int
  AtLeastRate :: int

record Event =
  Time :: time
  Name :: string
  Type :: EventType
  Message :: string
  ExtraInfo :: "(string \<times> string) list"

record checkResult =
  IbstatOutput :: "IbstatOutput option"
  IbstatusOutput :: "IbstatusOutput option"
  allIBPorts :: "IBPort list"
  unhealthyIBPorts :: "IBPort list"
  ts :: time
  err :: "go_error option"
  errIbstatus :: "go_error option"
  health :: HealthStateType
  suggestedActions :: "SuggestedActions option"
  reason :: string
  reasonIbSwitchFault :: string
  reasonIbPortDrop :: string
  reasonIbPortFlap :: string

record HealthState =
  hsTime :: time
  hsComponent :: string
  hsName :: string
  hsHealth :: HealthStateType
  hsReason :: string
  hsError :: string
  hsSuggestedActions :: "SuggestedActions option"
  hsExtraInfo :: "(string \<times> string) list"

text \<open>
  What the component calls outside this repository's sources at hand: the conversions and
  the evaluator of package \<^verbatim>\<open>pkg/nvidia-query/infiniband\<close>, \<^verbatim>\<open>encoding/json\<close> and
  \<^verbatim>\<open>humanize.RelTime\<close>. They are parameters of the model; \<^verbatim>\<open>json.Unmarshal\<close> returns
  \<open>None\<close> on an error.
\<close>

record externals =
  IBStatCards_IBPorts :: "IBStatCard list \<Rightarrow> IBPort list"
  IBStatuses_IBPorts :: "IBStatusDevice list \<Rightarrow> IBPort list"
  EvaluatePortsAndRate :: "IBPort list \<Rightarrow> int \<Rightarrow> int \<Rightarrow> IBPort list \<times> go_error option"
  json_Marshal :: "IBPort list \<Rightarrow> string"
  json_Unmarshal :: "string \<Rightarrow> IBPort list option"
  json_Marshal_checkResult :: "checkResult \<Rightarrow> string"
  RelTime :: "time \<Rightarrow> time \<Rightarrow> string \<Rightarrow> string \<Rightarrow> string"

definition component_Name :: string where
  "component_Name = ''accelerator-nvidia-infiniband''"

definition reasonThresholdNotSetSkipped :: string where
  "reasonThresholdNotSetSkipped = ''ports or rate threshold not set, skipping''"

definition reasonMissingIbstatIbstatusOutput :: string where
  "reasonMissingIbstatIbstatusOutput = ''missing ibstat/ibstatus output (skipped evaluation)''"

definition reasonMissingEventBucket :: string where
  "reasonMissingEventBucket = ''missing event storage (skipped evaluation)''"

definition reasonNoIbIssueFoundFromIbstat :: string where
  "reasonNoIbIssueFoundFromIbstat = ''no infiniband issue found (in ibstat/ibstatus)''"

text \<open>
  Modelled from the spec: \<^verbatim>\<open>ExpectedPortStates.IsZero\<close> (its package is not among the
  sources). "A policy where both fields are zero is the disabled sentinel."
\<close>

definition IsZero :: "ExpectedPortStates \<Rightarrow> bool" where
  "IsZero thresholds \<longleftrightarrow> AtLeastPorts thresholds = 0 \<and> AtLeastRate thresholds = 0"

subsection \<open>Threshold evaluation\<close>

definition evaluateThresholds ::
  "externals \<Rightarrow> checkResult \<Rightarrow> ExpectedPortStates \<Rightarrow> checkResult" where
  "evaluateThresholds x cr thresholds =
     (if IsZero thresholds then
        cr\<lparr>health := HealthStateTypeHealthy, suggestedActions := None,
           unhealthyIBPorts := [], reason := reasonThresholdNotSetSkipped,
           err := None, errIbstatus := None\<rparr>
      else if length (allIBPorts cr) = 0 then
        cr\<lparr>reason := reasonMissingIbstatIbstatusOutput, health := HealthStateTypeHealthy\<rparr>
      else
        (case EvaluatePortsAndRate x (allIBPorts cr) (AtLeastPorts thresholds)
                (AtLeastRate thresholds) of
           (unhealthy, Some e) \<Rightarrow>
             cr\<lparr>health := HealthStateTypeUnhealthy,
                suggestedActions :=
                  Some \<lparr>RepairActions = [RepairActionTypeHardwareInspection]\<rparr>,
                unhealthyIBPorts := unhealthy, reason := err_Error e\<rparr>
         | (unhealthy, None) \<Rightarrow>
             (let cr1 = cr\<lparr>health := HealthStateTypeHealthy, suggestedActions := None,
                             unhealthyIBPorts := [],
                             reason := reasonNoIbIssueFoundFromIbstat\<rparr>
              in if err cr1 \<noteq> None \<and> health cr1 = HealthStateTypeHealthy
                 then cr1\<lparr>err := None, errIbstatus := None\<rparr>
                 else cr1)))"

subsection \<open>The published health state\<close>

definition Summary :: "checkResult \<Rightarrow> string" where
  "Summary cr =
     (let r0 = reason cr;
          r1 = (if reasonIbSwitchFault cr \<noteq> '''' then r0 @ ''; '' @ reasonIbSwitchFault cr
                else r0);
          r2 = (if reasonIbPortDrop cr \<noteq> '''' then r1 @ ''; '' @ reasonIbPortDrop cr
                else r1)
      in if reasonIbPortFlap cr \<noteq> '''' then r2 @ ''; '' @ reasonIbPortFlap cr else r2)"

definition getSuggestedActions :: "checkResult \<Rightarrow> SuggestedActions option" where
  "getSuggestedActions cr = suggestedActions cr"

definition getError :: "checkResult \<Rightarrow> string" where
  "getError cr = (case err cr of Some e \<Rightarrow> err_Error e | None \<Rightarrow> '''')"

text \<open>
  \<^verbatim>\<open>checkResult.HealthStates\<close>, on a receiver that may be nil; \<open>now\<close> is the reading of
  the clock taken for the nil receiver.
\<close>

definition HealthStates :: "externals \<Rightarrow> time \<Rightarrow> checkResult option \<Rightarrow> HealthState list" where
  "HealthStates x now r =
     (case r of
        None \<Rightarrow>
          [\<lparr>hsTime = now, hsComponent = component_Name, hsName = component_Name,
            hsHealth = HealthStateTypeHealthy, hsReason = ''no data yet'', hsError = '''',
            hsSuggestedActions = None, hsExtraInfo = []\<rparr>]
      | Some cr \<Rightarrow>
          (let state = \<lparr>hsTime = ts cr, hsComponent = component_Name,
                        hsName = component_Name, hsHealth = health cr,
                        hsReason = Summary cr, hsError = getError cr,
                        hsSuggestedActions = getSuggestedActions cr,
                        hsExtraInfo = []\<rparr>
           in if IbstatOutput cr \<noteq> None
              then [state\<lparr>hsExtraInfo := [(''data'', json_Marshal_checkResult x cr)]\<rparr>]
              else [state]))"

subsection \<open>The switch-fault analyzer\<close>

definition totalPorts :: "checkResult \<Rightarrow> nat" where
  "totalPorts cr =
     (case IbstatOutput cr of
        Some out \<Rightarrow> length (Parsed out)
      | None \<Rightarrow>
          (case IbstatusOutput cr of
             Some out \<Rightarrow> length (status_Parsed out)
           | None \<Rightarrow> 0))"

definition evaluateIbSwitchFault :: "checkResult \<Rightarrow> checkResult" where
  "evaluateIbSwitchFault cr =
     (if health cr = HealthStateTypeHealthy then cr
      else if length (unhealthyIBPorts cr) = 0 then cr
      else if totalPorts cr = 0 \<or> length (unhealthyIBPorts cr) \<noteq> totalPorts cr then cr
      else cr\<lparr>reasonIbSwitchFault := ''ib switch fault, all ports down''\<rparr>)"

subsection \<open>The component, the event bucket and the effects of a cycle\<close>

record NVMLInstance =
  NVMLExists :: bool
  ProductName :: string

record ToolOverwrites =
  IbstatCommand :: string
  IbstatusCommand :: string

text \<open>
  \<^verbatim>\<open>eventstore.Bucket\<close> is an interface: the model takes its three methods over the
  state \<open>'s\<close> of the store. \<^verbatim>\<open>Find\<close> and \<^verbatim>\<open>Get\<close> are queries; \<^verbatim>\<open>Insert\<close> returns
  its error and the next state of the store.
\<close>

record 's Bucket =
  Find :: "'s \<Rightarrow> Event \<Rightarrow> go_error + Event option"
  Insert :: "'s \<Rightarrow> Event \<Rightarrow> go_error option \<times> 's"
  Get :: "'s \<Rightarrow> time \<Rightarrow> go_error + Event list"

text \<open>
  The fields of \<^verbatim>\<open>component\<close> that a cycle reads. The two data sources are function
  fields that may be nil; \<^verbatim>\<open>getThresholdsFunc\<close> (always set by \<^verbatim>\<open>New\<close>) is the policy
  it returns.
\<close>

record 's component =
  nvmlInstance :: "NVMLInstance option"
  toolOverwrites :: ToolOverwrites
  eventBucket :: "'s Bucket option"
  getIbstatOutputFunc :: "(string list \<Rightarrow> IbstatOutput option \<times> go_error option) option"
  getIbstatusOutputFunc :: "(string list \<Rightarrow> IbstatusOutput option \<times> go_error option) option"
  getThresholdsFunc :: ExpectedPortStates

text \<open>The mutable state: the store behind the bucket and the last published result.\<close>

record 's cstate =
  bucketState :: 's
  lastCheckResult :: "checkResult option"

text \<open>
  The calls a cycle issues, in order: the two data sources, the lookup and the insert of
  the recorder, and the three analyzers. The reads of the history inside the analyzers
  are queries and are not listed.
\<close>

datatype Effect =
  InvokeIbstatus "string list"
  | InvokeIbstat "string list"
  | BucketFind Event
  | BucketInsert Event
  | RunEvaluateIbSwitchFault
  | RunEvaluateIbPortDrop
  | RunEvaluateIbPortFlap

subsection \<open>The event recorder\<close>

definition convertToIbstatEvent :: "externals \<Rightarrow> checkResult \<Rightarrow> Event" where
  "convertToIbstatEvent x cr =
     (let ibportsEncoded =
            (if length (allIBPorts cr) > 0
             then json_Marshal x
                    (map (\<lambda>port. \<lparr>Device = Device port, State = State port,
                                   PhysicalState = '''', Rate = 0\<rparr>) (allIBPorts cr))
             else ''[]'');
          eventType =
            (if length (unhealthyIBPorts cr) > 0 then EventTypeWarning else EventTypeInfo)
      in \<lparr>Time = ts cr, Name = ''ibstat'', Type = eventType, Message = reason cr,
          ExtraInfo = [(''all_ibports'', ibportsEncoded)]\<rparr>)"

definition parseIBPortsFromEvent :: "externals \<Rightarrow> Event \<Rightarrow> IBPort list" where
  "parseIBPortsFromEvent x ev =
     (if Name ev \<noteq> ''ibstat'' then []
      else
        (let raw = (case map_of (ExtraInfo ev) ''all_ibports'' of None \<Rightarrow> '''' | Some r \<Rightarrow> r)
         in if raw = '''' then []
            else (case json_Unmarshal x raw of None \<Rightarrow> [] | Some ports \<Rightarrow> ports)))"

text \<open>
  \<^verbatim>\<open>recordIbEvent\<close> on the bucket of the component (\<^verbatim>\<open>Check\<close> calls it with a bucket
  that is not nil). It returns the error, the check result, the store and the calls made.
\<close>

definition recordIbEvent ::
  "externals \<Rightarrow> 's Bucket \<Rightarrow> 's \<Rightarrow> checkResult
     \<Rightarrow> go_error option \<times> checkResult \<times> 's \<times> Effect list" where
  "recordIbEvent x b s cr =
     (let ev = convertToIbstatEvent x cr
      in case Find b s ev of
           Inl e \<Rightarrow>
             (Some e,
              cr\<lparr>err := Some e, health := HealthStateTypeUnhealthy,
                 reason := ''error finding ibstat event''\<rparr>,
              s, [BucketFind ev])
         | Inr (Some found) \<Rightarrow> (None, cr, s, [BucketFind ev])
         | Inr None \<Rightarrow>
             (case Insert b s ev of
                (Some e, s') \<Rightarrow>
                  (Some e,
                   cr\<lparr>err := Some e, health := HealthStateTypeUnhealthy,
                      reason := ''error inserting ibstat event''\<rparr>,
                   s', [BucketFind ev, BucketInsert ev])
              | (None, s') \<Rightarrow>
                  (None, cr\<lparr>err := None\<rparr>, s', [BucketFind ev, BucketInsert ev])))"

definition readAllIbstatEvents :: "'s component \<Rightarrow> 's \<Rightarrow> time \<Rightarrow> go_error + Event list" where
  "readAllIbstatEvents c s since =
     (case eventBucket c of
        None \<Rightarrow> Inr []
      | Some b \<Rightarrow>
          (case Get b s since of
             Inl e \<Rightarrow> Inl e
           | Inr events \<Rightarrow> Inr (filter (\<lambda>ev. Name ev = ''ibstat'') events)))"

subsection \<open>The port-drop analyzer\<close>

fun strings_Join :: "string list \<Rightarrow> string \<Rightarrow> string" where
  "strings_Join [] sep = ''''"
| "strings_Join [a] sep = a"
| "strings_Join (a # b # rest) sep = a @ sep @ strings_Join (b # rest) sep"

text \<open>
  The Go maps of the two analyzers are association lists with distinct keys, in the order
  of first insertion. Go ranges over a map in no fixed order; the messages are sorted
  before they are joined.
\<close>

definition trackDroppedPort ::
  "time \<Rightarrow> (string \<times> time) list \<Rightarrow> IBPort \<Rightarrow> (string \<times> time) list" where
  "trackDroppedPort evTime droppedSince port =
     (if State port \<noteq> ''Down'' then AList.delete (Device port) droppedSince
      else if map_of droppedSince (Device port) = None
      then AList.update (Device port) evTime droppedSince
      else droppedSince)"

definition trackDroppedSince :: "externals \<Rightarrow> Event list \<Rightarrow> (string \<times> time) list" where
  "trackDroppedSince x ibstatEvents =
     foldl (\<lambda>droppedSince ev.
              foldl (trackDroppedPort (Time ev)) droppedSince (parseIBPortsFromEvent x ev))
       [] ibstatEvents"

definition dropMsg :: "externals \<Rightarrow> time \<Rightarrow> string \<times> time \<Rightarrow> string option" where
  "dropMsg x now entry =
     (case entry of
        (dev, t) \<Rightarrow>
          (let elapsed = time_Sub now t
           in if elapsed < 0 then None
              else if elapsed < 4 * Minute then None
              else Some (dev @ '' dropped '' @ RelTime x t now ''ago'' ''from now'')))"

definition evaluateIbPortDrop ::
  "externals \<Rightarrow> 's component \<Rightarrow> 's \<Rightarrow> checkResult \<Rightarrow> checkResult" where
  "evaluateIbPortDrop x c s cr =
     (if health cr = HealthStateTypeHealthy then cr
      else if time_IsZero (ts cr) then cr
      else if eventBucket c = None then cr
      else
        (case readAllIbstatEvents c s (time_Add (ts cr) (- 10 * Minute)) of
           Inl e \<Rightarrow> cr
         | Inr ibstatEvents \<Rightarrow>
             if length ibstatEvents = 0 then cr
             else if length ibstatEvents = 1 \<and> ts cr = Time (ibstatEvents ! 0) then cr
             else
               (let droppedSince = trackDroppedSince x ibstatEvents;
                    msgs = List.map_filter (dropMsg x (ts cr)) droppedSince
                in if length msgs = 0 then cr
                   else cr\<lparr>reasonIbPortDrop :=
                             ''ib port drop -- '' @ strings_Join (sort msgs) '', ''\<rparr>)))"

subsection \<open>The port-flap analyzer\<close>

definition trackTransition ::
  "(string \<times> string list) list \<Rightarrow> IBPort \<Rightarrow> (string \<times> string list) list" where
  "trackTransition stateTransitions port =
     (case map_of stateTransitions (Device port) of
        None \<Rightarrow> AList.update (Device port) [State port] stateTransitions
      | Some prev \<Rightarrow>
          if length prev = 0
          then AList.update (Device port) [State port] stateTransitions
          else if last prev \<noteq> State port
          then AList.update (Device port) (prev @ [State port]) stateTransitions
          else stateTransitions)"

definition trackStateTransitions ::
  "externals \<Rightarrow> time \<Rightarrow> Event list \<Rightarrow> (string \<times> string list) list" where
  "trackStateTransitions x now ibstatEvents =
     foldl (\<lambda>stateTransitions ev.
              if time_Sub now (Time ev) > 4 * Minute then stateTransitions
              else foldl trackTransition stateTransitions (parseIBPortsFromEvent x ev))
       [] ibstatEvents"

definition flapMsg :: "string \<times> string list \<Rightarrow> string option" where
  "flapMsg entry =
     (case entry of
        (dev, transitions) \<Rightarrow>
          if length transitions < 2 then None
          else
            (let kept = (if length transitions > 4
                         then drop (length transitions - 4) transitions
                         else transitions)
             in Some (dev @ '' '' @ strings_Join kept '' -> '')))"

definition evaluateIbPortFlap ::
  "externals \<Rightarrow> 's component \<Rightarrow> 's \<Rightarrow> checkResult \<Rightarrow> checkResult" where
  "evaluateIbPortFlap x c s cr =
     (if time_IsZero (ts cr) then cr
      else if eventBucket c = None then cr
      else
        (case readAllIbstatEvents c s (time_Add (ts cr) (- 10 * Minute)) of
           Inl e \<Rightarrow> cr
         | Inr ibstatEvents \<Rightarrow>
             if length ibstatEvents \<le> 1 then cr
             else if time_Sub (ts cr) (Time (ibstatEvents ! 0)) < 0 then cr
             else
               (let stateTransitions = trackStateTransitions x (ts cr) ibstatEvents
                in if length stateTransitions = 0 then cr
                   else
                     (let msgs = List.map_filter flapMsg stateTransitions
                      in if length msgs = 0 then cr
                         else cr\<lparr>reasonIbPortFlap :=
                                   ''ib port flap -- '' @ strings_Join (sort msgs) '', ''\<rparr>))))"

subsection \<open>The check cycle\<close>

definition newCheckResult :: "time \<Rightarrow> checkResult" where
  "newCheckResult now =
     \<lparr>IbstatOutput = None, IbstatusOutput = None, allIBPorts = [], unhealthyIBPorts = [],
      ts = now, err = None, errIbstatus = None, health = HealthStateTypeUnset,
      suggestedActions = None, reason = '''', reasonIbSwitchFault = '''',
      reasonIbPortDrop = '''', reasonIbPortFlap = ''''\<rparr>"

text \<open>Lines 244 to 248 of \<^verbatim>\<open>Check\<close>: the port list handed to the threshold evaluation.\<close>

definition selectIBPorts :: "externals \<Rightarrow> checkResult \<Rightarrow> checkResult" where
  "selectIBPorts x cr =
     (case IbstatOutput cr of
        Some out \<Rightarrow> cr\<lparr>allIBPorts := IBStatCards_IBPorts x (Parsed out)\<rparr>
      | None \<Rightarrow>
          (case IbstatusOutput cr of
             Some out \<Rightarrow> cr\<lparr>allIBPorts := IBStatuses_IBPorts x (status_Parsed out)\<rparr>
           | None \<Rightarrow> cr))"

text \<open>
  Lines 207 to 234 of \<^verbatim>\<open>Check\<close>: both data sources are invoked, the fallback first, and
  the error of the primary one is classified.
\<close>

definition invokeDataSources ::
  "'s component \<Rightarrow> (string list \<Rightarrow> IbstatOutput option \<times> go_error option)
     \<Rightarrow> (string list \<Rightarrow> IbstatusOutput option \<times> go_error option)
     \<Rightarrow> checkResult \<Rightarrow> checkResult" where
  "invokeDataSources c getIbstatOutput getIbstatusOutput cr =
     (let ibstatusCommands = [IbstatusCommand (toolOverwrites c)];
          ibstatCommands = [IbstatCommand (toolOverwrites c)];
          cr1 = cr\<lparr>IbstatusOutput := fst (getIbstatusOutput ibstatusCommands),
                   errIbstatus := snd (getIbstatusOutput ibstatusCommands)\<rparr>;
          cr2 = cr1\<lparr>IbstatOutput := fst (getIbstatOutput ibstatCommands),
                    err := snd (getIbstatOutput ibstatCommands)\<rparr>
      in case err cr2 of
           None \<Rightarrow> cr2
         | Some e \<Rightarrow>
             if errors_Is_ErrNoIbstatCommand e
             then cr2\<lparr>health := HealthStateTypeHealthy,
                      reason := ''ibstat command not found''\<rparr>
             else cr2\<lparr>health := HealthStateTypeUnhealthy,
                      reason := ''ibstat command failed''\<rparr>)"

text \<open>
  The body of \<^verbatim>\<open>Check\<close>; \<open>now\<close> is the reading of the clock at its start. It returns
  the check result, the store and the calls made.
\<close>

definition checkCycle ::
  "externals \<Rightarrow> 's component \<Rightarrow> 's \<Rightarrow> time \<Rightarrow> checkResult \<times> 's \<times> Effect list" where
  "checkCycle x c s now =
     (let cr = newCheckResult now;
          thresholds = getThresholdsFunc c
      in if IsZero thresholds then
           (cr\<lparr>reason := reasonThresholdNotSetSkipped, health := HealthStateTypeHealthy\<rparr>,
            s, [])
         else
           (case nvmlInstance c of
              None \<Rightarrow>
                (cr\<lparr>health := HealthStateTypeHealthy,
                    reason := ''NVIDIA NVML instance is nil''\<rparr>, s, [])
            | Some nvml \<Rightarrow>
                if \<not> NVMLExists nvml then
                  (cr\<lparr>health := HealthStateTypeHealthy,
                      reason := ''NVIDIA NVML library is not loaded''\<rparr>, s, [])
                else if ProductName nvml = '''' then
                  (cr\<lparr>health := HealthStateTypeHealthy,
                      reason :=
                        ''NVIDIA NVML is loaded but GPU is not detected (missing product name)''\<rparr>,
                   s, [])
                else
                  (case (getIbstatOutputFunc c, getIbstatusOutputFunc c) of
                     (Some getIbstatOutput, Some getIbstatusOutput) \<Rightarrow>
                       (let cr3 = invokeDataSources c getIbstatOutput getIbstatusOutput cr;
                            invoked = [InvokeIbstatus [IbstatusCommand (toolOverwrites c)],
                                       InvokeIbstat [IbstatCommand (toolOverwrites c)]]
                        in case eventBucket c of
                             None \<Rightarrow>
                               (cr3\<lparr>reason := reasonMissingEventBucket,
                                    health := HealthStateTypeHealthy\<rparr>, s, invoked)
                           | Some b \<Rightarrow>
                               (let cr4 = evaluateThresholds x (selectIBPorts x cr3) thresholds
                                in case recordIbEvent x b s cr4 of
                                     (Some e, cr5, s', recorded) \<Rightarrow>
                                       (cr5, s', invoked @ recorded)
                                   | (None, cr5, s', recorded) \<Rightarrow>
                                       (evaluateIbPortFlap x c s'
                                          (evaluateIbPortDrop x c s'
                                             (evaluateIbSwitchFault cr5)),
                                        s',
                                        invoked @ recorded @
                                          [RunEvaluateIbSwitchFault, RunEvaluateIbPortDrop,
                                           RunEvaluateIbPortFlap])))
                   | _ \<Rightarrow>
                       (cr\<lparr>health := HealthStateTypeHealthy,
                           reason := ''ibstat checker not found''\<rparr>, s, []))))"

text \<open>\<^verbatim>\<open>Check\<close>: the body, and the deferred store of the result as the last check result.\<close>

definition Check ::
  "externals \<Rightarrow> 's component \<Rightarrow> 's cstate \<Rightarrow> time
     \<Rightarrow> checkResult \<times> 's cstate \<times> Effect list" where
  "Check x c st now =
     (case checkCycle x c (bucketState st) now of
        (cr, s', effects) \<Rightarrow>
          (cr, \<lparr>bucketState = s', lastCheckResult = Some cr\<rparr>, effects))"

definition LastHealthStates :: "externals \<Rightarrow> time \<Rightarrow> 's cstate \<Rightarrow> HealthState list" where
  "LastHealthStates x now st = HealthStates x now (lastCheckResult st)"

subsection \<open>The collaborators, modelled from the specification\<close>

text \<open>
  Modelled from the spec: \<^verbatim>\<open>infiniband.EvaluatePortsAndRate\<close> (its package is not among
  the sources). "A port counts toward the healthy tally when its link state is the active
  state and its rate is at least minRate; all other ports are collected into
  unhealthyPorts. If the count of ports satisfying both conditions is below
  minActivePorts, return the unhealthy set and a descriptive error; otherwise return an
  empty set and no error." The spec does not give the text of the error.
\<close>

definition specEvaluatePortsAndRate ::
  "IBPort list \<Rightarrow> int \<Rightarrow> int \<Rightarrow> IBPort list \<times> go_error option" where
  "specEvaluatePortsAndRate ports atLeastPorts atLeastRate =
     (let counted = filter (\<lambda>p. State p = ''Active'' \<and> atLeastRate \<le> Rate p) ports;
          unhealthy = filter (\<lambda>p. \<not> (State p = ''Active'' \<and> atLeastRate \<le> Rate p)) ports
      in if int (length counted) < atLeastPorts
         then (unhealthy, Some (GoError False ''not enough active ports at the expected rate''))
         else ([], None))"

text \<open>
  Modelled from the spec: the event store behind the bucket (package \<^verbatim>\<open>pkg/eventstore\<close>
  is not among the sources). "insert(event); findEquivalent(event) returns the existing
  event or none; getSince(timestamp) returns the events ascending by time." Which events
  the lookup holds equivalent is left open by the spec, so the equivalence is a parameter:
  \<open>equivalent ev e\<close> says that the stored event \<open>e\<close> answers the lookup of \<open>ev\<close>.
\<close>

definition specBucket :: "(Event \<Rightarrow> Event \<Rightarrow> bool) \<Rightarrow> (Event list) Bucket" where
  "specBucket equivalent =
     \<lparr>Find = (\<lambda>s ev. Inr (List.find (equivalent ev) s)),
      Insert = (\<lambda>s ev. (None, s @ [ev])),
      Get = (\<lambda>s since. Inr (sort_key Time (filter (\<lambda>e. since \<le> Time e) s)))\<rparr>"

subsection \<open>What the histories record, in the words of the specification\<close>

text \<open>
  The readings of a history in the order of the scan: every port of every event, with the
  time of its event.
\<close>

definition readings :: "externals \<Rightarrow> Event list \<Rightarrow> (time \<times> IBPort) list" where
  "readings x evs =
     concat (map (\<lambda>ev. map (\<lambda>port. (Time ev, port)) (parseIBPortsFromEvent x ev)) evs)"

text \<open>
  The readings of a device that end the history in state "Down" without a reading in
  another state after them, and the time of the first of them: the time since which the
  device has been down without a break.
\<close>

definition downRun :: "(time \<times> IBPort) list \<Rightarrow> string \<Rightarrow> (time \<times> IBPort) list" where
  "downRun rs dev =
     rev (takeWhile (\<lambda>r. State (snd r) = ''Down'')
            (rev (filter (\<lambda>r. Device (snd r) = dev) rs)))"

definition firstDown :: "(time \<times> IBPort) list \<Rightarrow> string \<Rightarrow> time option" where
  "firstDown rs dev = (case downRun rs dev of [] \<Rightarrow> None | r # later \<Rightarrow> Some (fst r))"

definition dropText :: "externals \<Rightarrow> time \<Rightarrow> string \<times> time \<Rightarrow> string" where
  "dropText x now entry =
     fst entry @ '' dropped '' @ RelTime x (snd entry) now ''ago'' ''from now''"

text \<open>
  The events at most four minutes old, the ports they record, and the states of a device
  over them with runs of one state collapsed.
\<close>

definition recentPorts :: "externals \<Rightarrow> time \<Rightarrow> Event list \<Rightarrow> IBPort list" where
  "recentPorts x now evs =
     concat (map (parseIBPortsFromEvent x) (filter (\<lambda>ev. now - Time ev \<le> 4 * Minute) evs))"

definition collapsedStates :: "IBPort list \<Rightarrow> string \<Rightarrow> string list" where
  "collapsedStates ports dev = remdups_adj (map State (filter (\<lambda>p. Device p = dev) ports))"

definition flapText :: "string \<times> string list \<Rightarrow> string" where
  "flapText entry =
     fst entry @ '' '' @ strings_Join (drop (length (snd entry) - 4) (snd entry)) '' -> ''"

text \<open>One step of the scan of the drop analyzer, on a reading.\<close>

definition trackReading ::
  "(string \<times> time) list \<Rightarrow> time \<times> IBPort \<Rightarrow> (string \<times> time) list" where
  "trackReading m r = trackDroppedPort (fst r) m (snd r)"

subsection \<open>Stand-ins for the external functions, for concrete runs\<close>

text \<open>
  A port list is written \<^verbatim>\<open>device:state;device:state;\<close> by the stand-in of the JSON
  codec; the stand-in of \<^verbatim>\<open>RelTime\<close> prints no magnitude.
\<close>

fun splitAt :: "char \<Rightarrow> string \<Rightarrow> string \<Rightarrow> string list" where
  "splitAt sep acc [] = [rev acc]"
| "splitAt sep acc (ch # rest) =
     (if ch = sep then rev acc # splitAt sep [] rest else splitAt sep (ch # acc) rest)"

definition testMarshal :: "IBPort list \<Rightarrow> string" where
  "testMarshal ports = concat (map (\<lambda>p. Device p @ '':'' @ State p @ '';'') ports)"

definition testUnmarshal :: "string \<Rightarrow> IBPort list option" where
  "testUnmarshal raw =
     (let fields = map (splitAt CHR '':'' []) (filter (\<lambda>f. f \<noteq> '''') (splitAt CHR '';'' [] raw))
      in if list_all (\<lambda>f. length f = 2) fields
         then Some (map (\<lambda>f. \<lparr>Device = f ! 0, State = f ! 1, PhysicalState = '''', Rate = 0\<rparr>)
                      fields)
         else None)"

definition testExternals :: externals where
  "testExternals =
     \<lparr>IBStatCards_IBPorts =
        map (\<lambda>card. \<lparr>Device = card_Device card, State = port_State (Port1 card),
                      PhysicalState = port_PhysicalState (Port1 card),
                      Rate = port_Rate (Port1 card)\<rparr>),
      IBStatuses_IBPorts =
        map (\<lambda>d. \<lparr>Device = dev_Device d, State = dev_State d,
                   PhysicalState = dev_PhysicalState d, Rate = 0\<rparr>),
      EvaluatePortsAndRate = specEvaluatePortsAndRate,
      json_Marshal = testMarshal,
      json_Unmarshal = testUnmarshal,
      json_Marshal_checkResult = (\<lambda>cr. ''{}''),
      RelTime = (\<lambda>a b albl blbl. ''a while '' @ (if a \<le> b then albl else blbl))\<rparr>"

definition ibstatEvent :: "time \<Rightarrow> (string \<times> string) list \<Rightarrow> Event" where
  "ibstatEvent t ports =
     \<lparr>Time = t, Name = ''ibstat'', Type = EventTypeInfo, Message = '''',
      ExtraInfo =
        [(''all_ibports'', concat (map (\<lambda>(d, st). d @ '':'' @ st @ '';'') ports))]\<rparr>"

definition testComponent ::
  "'s Bucket option \<Rightarrow> ExpectedPortStates \<Rightarrow> IbstatOutput option \<times> go_error option
     \<Rightarrow> IbstatusOutput option \<times> go_error option \<Rightarrow> 's component" where
  "testComponent bucket thresholds ibstat ibstatus =
     \<lparr>nvmlInstance = Some \<lparr>NVMLExists = True, ProductName = ''NVIDIA H100''\<rparr>,
      toolOverwrites = \<lparr>IbstatCommand = ''ibstat'', IbstatusCommand = ''ibstatus''\<rparr>,
      eventBucket = bucket,
      getIbstatOutputFunc = Some (\<lambda>cmds. ibstat),
      getIbstatusOutputFunc = Some (\<lambda>cmds. ibstatus),
      getThresholdsFunc = thresholds\<rparr>"

definition ibstatCard :: "string \<Rightarrow> string \<Rightarrow> int \<Rightarrow> IBStatCard" where
  "ibstatCard dev st rate =
     \<lparr>card_Device = dev,
      Port1 = \<lparr>port_State = st, port_PhysicalState = ''LinkUp'', port_Rate = rate\<rparr>\<rparr>"

definition ibstatusDevice :: "string \<Rightarrow> string \<Rightarrow> IBStatusDevice" where
  "ibstatusDevice dev st =
     \<lparr>dev_Device = dev, dev_State = st, dev_PhysicalState = ''LinkUp'',
      dev_Rate = ''400 Gb/sec'', dev_LinkLayer = ''InfiniBand''\<rparr>"

text \<open>A bucket whose lookup or insert fails with the given error.\<close>

definition faultyBucket :: "go_error option \<Rightarrow> go_error option \<Rightarrow> (Event list) Bucket" where
  "faultyBucket findErr insertErr =
     \<lparr>Find = (\<lambda>s ev. case findErr of Some e \<Rightarrow> Inl e | None \<Rightarrow> Inr (List.find ((=) ev) s)),
      Insert = (\<lambda>s ev. case insertErr of Some e \<Rightarrow> (Some e, s) | None \<Rightarrow> (None, s @ [ev])),
      Get = (\<lambda>s since. Inr (sort_key Time (filter (\<lambda>e. since \<le> Time e) s)))\<rparr>"

text \<open>
  Three histories: a port down for five minutes beside one that went down just now; a port
  that went down, up and down again within three minutes; and two events dated after the
  cycle that reads them.
\<close>

definition dropHistory :: "Event list" where
  "dropHistory =
     [ibstatEvent 1000 [(''mlx5_0'', ''Down''), (''mlx5_1'', ''Down'')],
      ibstatEvent (1000 + 3 * Minute) [(''mlx5_0'', ''Down''), (''mlx5_1'', ''Active'')],
      ibstatEvent (1000 + 5 * Minute) [(''mlx5_0'', ''Down''), (''mlx5_1'', ''Down'')]]"

definition flapHistory :: "Event list" where
  "flapHistory =
     [ibstatEvent 1000 [(''mlx5_0'', ''Down''), (''mlx5_1'', ''Down'')],
      ibstatEvent (1000 + Minute) [(''mlx5_0'', ''Active''), (''mlx5_1'', ''Down'')],
      ibstatEvent (1000 + 2 * Minute) [(''mlx5_0'', ''Down''), (''mlx5_1'', ''Down'')]]"

definition futureHistory :: "Event list" where
  "futureHistory =
     [ibstatEvent (1000 + Minute) [(''mlx5_0'', ''Down'')],
      ibstatEvent (1000 + 2 * Minute) [(''mlx5_0'', ''Active'')]]"

definition historyComponent :: "(Event list) component" where
  "historyComponent =
     testComponent (Some (specBucket (=))) \<lparr>AtLeastPorts = 2, AtLeastRate = 400\<rparr>
       (None, None) (None, None)"

section \<open>Properties\<close>

subsection \<open>The disabled policy\<close>

text \<open>
  C1. For every policy in which both thresholds are zero, a check cycle returns a healthy
  verdict with the threshold-not-set skip reason; it issues no call at all (neither data
  source is invoked, the store is neither queried nor written, none of the three analyzers
  runs), the store is left as it was and the three temporal reasons are empty. This holds
  for every component, store and clock reading.
\<close>

theorem disabled_policy_short_circuits:
  assumes "AtLeastPorts (getThresholdsFunc c) = 0" and "AtLeastRate (getThresholdsFunc c) = 0"
  shows "case Check x c st now of
           (cr, st', effects) \<Rightarrow>
             health cr = HealthStateTypeHealthy \<and> reason cr = reasonThresholdNotSetSkipped
             \<and> effects = [] \<and> bucketState st' = bucketState st
             \<and> reasonIbSwitchFault cr = '''' \<and> reasonIbPortDrop cr = ''''
             \<and> reasonIbPortFlap cr = ''''"
  using assms by (simp add: Check_def checkCycle_def IsZero_def newCheckResult_def)

theorem disabled_policy_short_circuits_witness:
  "AtLeastPorts (getThresholdsFunc
      (testComponent (Some (specBucket (=))) \<lparr>AtLeastPorts = 0, AtLeastRate = 0\<rparr>
         (Some \<lparr>Parsed = [ibstatCard ''mlx5_0'' ''Down'' 0]\<rparr>, None) (None, None))) = 0
   \<and> AtLeastRate (getThresholdsFunc
      (testComponent (Some (specBucket (=))) \<lparr>AtLeastPorts = 0, AtLeastRate = 0\<rparr>
         (Some \<lparr>Parsed = [ibstatCard ''mlx5_0'' ''Down'' 0]\<rparr>, None) (None, None))) = 0
   \<and> (case Check testExternals
          (testComponent (Some (specBucket (=))) \<lparr>AtLeastPorts = 0, AtLeastRate = 0\<rparr>
             (Some \<lparr>Parsed = [ibstatCard ''mlx5_0'' ''Down'' 0]\<rparr>, None) (None, None))
          \<lparr>bucketState = [ibstatEvent 5 [(''mlx5_0'', ''Down'')]], lastCheckResult = None\<rparr>
          1000 of
        (cr, st', effects) \<Rightarrow>
          health cr = HealthStateTypeHealthy \<and> reason cr = reasonThresholdNotSetSkipped
          \<and> effects = []
          \<and> bucketState st' = [ibstatEvent 5 [(''mlx5_0'', ''Down'')]]
          \<and> reasonIbSwitchFault cr = '''' \<and> reasonIbPortDrop cr = ''''
          \<and> reasonIbPortFlap cr = '''')"
  using disabled_policy_short_circuits
    [where c = "testComponent (Some (specBucket (=))) \<lparr>AtLeastPorts = 0, AtLeastRate = 0\<rparr>
                  (Some \<lparr>Parsed = [ibstatCard ''mlx5_0'' ''Down'' 0]\<rparr>, None) (None, None)"
       and x = testExternals
       and st = "\<lparr>bucketState = [ibstatEvent 5 [(''mlx5_0'', ''Down'')]],
                  lastCheckResult = None\<rparr>"
       and now = 1000]
  by (simp add: testComponent_def)

subsection \<open>Threshold evaluation\<close>

text \<open>
  The override inside threshold evaluation: a check result that carries the error of the
  primary source with a non-empty port list that meets a configured policy leaves
  threshold evaluation healthy and without the error.
\<close>

lemma evaluateThresholds_discards_error:
  assumes "err cr = Some e" and "allIBPorts cr \<noteq> []" and "\<not> IsZero thresholds"
    and "snd (EvaluatePortsAndRate x (allIBPorts cr) (AtLeastPorts thresholds)
                (AtLeastRate thresholds)) = None"
  shows "health (evaluateThresholds x cr thresholds) = HealthStateTypeHealthy
         \<and> err (evaluateThresholds x cr thresholds) = None
         \<and> getError (evaluateThresholds x cr thresholds) = ''''
         \<and> map hsError (HealthStates x now (Some (evaluateThresholds x cr thresholds)))
             = ['''']"
  using assms
  by (auto simp add: evaluateThresholds_def getError_def HealthStates_def Let_def
           split: prod.splits option.splits)

text \<open>
  C7. When the policy is configured (not the disabled sentinel) and the port list handed
  to threshold evaluation is empty, the verdict is healthy with the missing-output skip
  reason, whatever the configured minimum of active ports.
\<close>

theorem missing_output_is_healthy:
  assumes "\<not> IsZero thresholds" and "allIBPorts cr = []"
  shows "health (evaluateThresholds x cr thresholds) = HealthStateTypeHealthy
         \<and> reason (evaluateThresholds x cr thresholds) = reasonMissingIbstatIbstatusOutput"
  using assms by (simp add: evaluateThresholds_def)

theorem missing_output_is_healthy_witness:
  "\<not> IsZero \<lparr>AtLeastPorts = 8, AtLeastRate = 400\<rparr>
   \<and> allIBPorts (newCheckResult 1000) = []
   \<and> health (evaluateThresholds testExternals (newCheckResult 1000)
               \<lparr>AtLeastPorts = 8, AtLeastRate = 400\<rparr>) = HealthStateTypeHealthy
   \<and> reason (evaluateThresholds testExternals (newCheckResult 1000)
               \<lparr>AtLeastPorts = 8, AtLeastRate = 400\<rparr>)
       = ''missing ibstat/ibstatus output (skipped evaluation)''"
  using missing_output_is_healthy
    [where thresholds = "\<lparr>AtLeastPorts = 8, AtLeastRate = 400\<rparr>"
       and cr = "newCheckResult 1000" and x = testExternals]
  by (simp add: IsZero_def newCheckResult_def reasonMissingIbstatIbstatusOutput_def)

subsection \<open>The switch fault\<close>

text \<open>
  C5. On a check result whose switch-fault reason is still empty, the switch-fault
  analyzer sets the reason to exactly "ib switch fault, all ports down" if and only if
  the verdict is not healthy, the list of unhealthy ports is not empty, the total port
  count of the cycle is not zero and the number of unhealthy ports equals that count;
  otherwise the reason stays empty. (After threshold evaluation a verdict that is not
  healthy is unhealthy.)
\<close>

theorem switch_fault_iff_all_ports_unhealthy:
  assumes "reasonIbSwitchFault cr = ''''"
  shows "reasonIbSwitchFault (evaluateIbSwitchFault cr) =
           (if health cr \<noteq> HealthStateTypeHealthy \<and> unhealthyIBPorts cr \<noteq> []
               \<and> totalPorts cr \<noteq> 0 \<and> length (unhealthyIBPorts cr) = totalPorts cr
            then ''ib switch fault, all ports down'' else '''')"
  using assms by (simp add: evaluateIbSwitchFault_def)

theorem switch_fault_iff_all_ports_unhealthy_witness:
  "reasonIbSwitchFault ((newCheckResult 1000)
      \<lparr>IbstatOutput := Some \<lparr>Parsed = [ibstatCard ''mlx5_0'' ''Down'' 0,
                                        ibstatCard ''mlx5_1'' ''Down'' 0]\<rparr>,
       unhealthyIBPorts := IBStatCards_IBPorts testExternals
                             [ibstatCard ''mlx5_0'' ''Down'' 0, ibstatCard ''mlx5_1'' ''Down'' 0],
       health := HealthStateTypeUnhealthy\<rparr>) = ''''
   \<and> reasonIbSwitchFault (evaluateIbSwitchFault ((newCheckResult 1000)
      \<lparr>IbstatOutput := Some \<lparr>Parsed = [ibstatCard ''mlx5_0'' ''Down'' 0,
                                        ibstatCard ''mlx5_1'' ''Down'' 0]\<rparr>,
       unhealthyIBPorts := IBStatCards_IBPorts testExternals
                             [ibstatCard ''mlx5_0'' ''Down'' 0, ibstatCard ''mlx5_1'' ''Down'' 0],
       health := HealthStateTypeUnhealthy\<rparr>)) = ''ib switch fault, all ports down''"
  using switch_fault_iff_all_ports_unhealthy
    [where cr = "(newCheckResult 1000)
      \<lparr>IbstatOutput := Some \<lparr>Parsed = [ibstatCard ''mlx5_0'' ''Down'' 0,
                                        ibstatCard ''mlx5_1'' ''Down'' 0]\<rparr>,
       unhealthyIBPorts := IBStatCards_IBPorts testExternals
                             [ibstatCard ''mlx5_0'' ''Down'' 0, ibstatCard ''mlx5_1'' ''Down'' 0],
       health := HealthStateTypeUnhealthy\<rparr>"]
  by (simp add: newCheckResult_def totalPorts_def testExternals_def)

subsection \<open>The accessor of the current health\<close>

text \<open>
  C10. When no check cycle has completed (the last check result is nil), the accessor of
  the current health returns exactly one health state, healthy, with the reason
  "no data yet".
\<close>

theorem no_data_yet:
  assumes "lastCheckResult st = None"
  shows "LastHealthStates x now st =
           [\<lparr>hsTime = now, hsComponent = component_Name, hsName = component_Name,
             hsHealth = HealthStateTypeHealthy, hsReason = ''no data yet'', hsError = '''',
             hsSuggestedActions = None, hsExtraInfo = []\<rparr>]"
  using assms by (simp add: LastHealthStates_def HealthStates_def)

theorem no_data_yet_witness:
  "lastCheckResult \<lparr>bucketState = ([] :: Event list), lastCheckResult = None\<rparr> = None
   \<and> LastHealthStates testExternals 1000
        \<lparr>bucketState = ([] :: Event list), lastCheckResult = None\<rparr> =
       [\<lparr>hsTime = 1000, hsComponent = component_Name, hsName = component_Name,
         hsHealth = HealthStateTypeHealthy, hsReason = ''no data yet'', hsError = '''',
         hsSuggestedActions = None, hsExtraInfo = []\<rparr>]"
  using no_data_yet
    [where st = "\<lparr>bucketState = ([] :: Event list), lastCheckResult = None\<rparr>"
       and x = testExternals and now = 1000]
  by simp

subsection \<open>Failures of the event store\<close>

text \<open>The recorder issues the lookup and, when nothing is found, the insert.\<close>

lemma recordIbEvent_effects:
  "recordIbEvent x b s cr = (r, cr', s', recorded) \<Longrightarrow>
     recorded = [BucketFind (convertToIbstatEvent x cr)]
     \<or> recorded = [BucketFind (convertToIbstatEvent x cr), BucketInsert (convertToIbstatEvent x cr)]"
  by (auto simp add: recordIbEvent_def Let_def split: sum.splits option.splits prod.splits)

lemma evaluateThresholds_temporal_reasons:
  "reasonIbSwitchFault (evaluateThresholds x cr th) = reasonIbSwitchFault cr
   \<and> reasonIbPortDrop (evaluateThresholds x cr th) = reasonIbPortDrop cr
   \<and> reasonIbPortFlap (evaluateThresholds x cr th) = reasonIbPortFlap cr"
  by (auto simp add: evaluateThresholds_def Let_def split: prod.splits option.splits)

lemma selectIBPorts_temporal_reasons:
  "reasonIbSwitchFault (selectIBPorts x cr) = reasonIbSwitchFault cr
   \<and> reasonIbPortDrop (selectIBPorts x cr) = reasonIbPortDrop cr
   \<and> reasonIbPortFlap (selectIBPorts x cr) = reasonIbPortFlap cr"
  by (auto simp add: selectIBPorts_def split: option.splits)

lemma recordIbEvent_failure:
  assumes "recordIbEvent x b s cr = (r, cr', s', recorded)"
    and "(BucketFind ev \<in> set recorded \<and> Find b s ev = Inl e)
         \<or> (BucketInsert ev \<in> set recorded \<and> fst (Insert b s ev) = Some e)"
  shows "r = Some e \<and> health cr' = HealthStateTypeUnhealthy \<and> err cr' = Some e
         \<and> reason cr' = (if BucketInsert ev \<in> set recorded
                          then ''error inserting ibstat event''
                          else ''error finding ibstat event'')
         \<and> reasonIbSwitchFault cr' = reasonIbSwitchFault cr
         \<and> reasonIbPortDrop cr' = reasonIbPortDrop cr
         \<and> reasonIbPortFlap cr' = reasonIbPortFlap cr"
  using assms
  by (auto simp add: recordIbEvent_def Let_def split: sum.splits option.splits prod.splits)


lemma invokeDataSources_fields:
  "IbstatOutput (invokeDataSources c f g cr) = fst (f [IbstatCommand (toolOverwrites c)])
   \<and> IbstatusOutput (invokeDataSources c f g cr) = fst (g [IbstatusCommand (toolOverwrites c)])
   \<and> allIBPorts (invokeDataSources c f g cr) = allIBPorts cr
   \<and> ts (invokeDataSources c f g cr) = ts cr
   \<and> reasonIbSwitchFault (invokeDataSources c f g cr) = reasonIbSwitchFault cr
   \<and> reasonIbPortDrop (invokeDataSources c f g cr) = reasonIbPortDrop cr
   \<and> reasonIbPortFlap (invokeDataSources c f g cr) = reasonIbPortFlap cr"
  by (simp add: invokeDataSources_def Let_def split: option.splits)

text \<open>A cycle that reaches the recorder: its calls and its result.\<close>

lemma checkCycle_recorded:
  assumes "checkCycle x c s now = (cr, s', effects)"
    and "BucketFind ev \<in> set effects \<or> BucketInsert ev \<in> set effects
         \<or> RunEvaluateIbPortFlap \<in> set effects"
  shows "\<exists>b f g r cr5 recorded.
           eventBucket c = Some b \<and> getIbstatOutputFunc c = Some f
           \<and> getIbstatusOutputFunc c = Some g
           \<and> \<not> IsZero (getThresholdsFunc c)
           \<and> recordIbEvent x b s
                (evaluateThresholds x
                   (selectIBPorts x (invokeDataSources c f g (newCheckResult now)))
                   (getThresholdsFunc c))
               = (r, cr5, s', recorded)
           \<and> effects = [InvokeIbstatus [IbstatusCommand (toolOverwrites c)],
                         InvokeIbstat [IbstatCommand (toolOverwrites c)]] @ recorded
                 @ (if r = None
                    then [RunEvaluateIbSwitchFault, RunEvaluateIbPortDrop,
                          RunEvaluateIbPortFlap]
                    else [])
           \<and> cr = (if r = None
                    then evaluateIbPortFlap x c s'
                           (evaluateIbPortDrop x c s' (evaluateIbSwitchFault cr5))
                    else cr5)"
proof -
  from assms(2) have ne: "effects \<noteq> []" by auto
  show ?thesis
  proof (cases "IsZero (getThresholdsFunc c)")
    case True
    with assms(1) ne show ?thesis by (simp add: checkCycle_def Let_def)
  next
    case nz: False
    show ?thesis
    proof (cases "nvmlInstance c")
      case None
      with assms(1) ne nz show ?thesis by (simp add: checkCycle_def Let_def)
    next
      case (Some nvml)
      show ?thesis
      proof (cases "NVMLExists nvml \<and> ProductName nvml \<noteq> ''''")
        case False
        with assms(1) ne nz Some show ?thesis
          by (auto simp add: checkCycle_def Let_def split: if_splits)
      next
        case nv: True
        show ?thesis
        proof (cases "getIbstatOutputFunc c")
          case None
          with assms(1) ne nz Some nv show ?thesis
            by (auto simp add: checkCycle_def Let_def split: option.splits)
        next
          case f: (Some f)
          show ?thesis
          proof (cases "getIbstatusOutputFunc c")
            case None
            with assms(1) ne nz Some nv f show ?thesis
              by (auto simp add: checkCycle_def Let_def split: option.splits)
          next
            case g: (Some g)
            show ?thesis
            proof (cases "eventBucket c")
              case None
              with assms nz Some nv f g show ?thesis
                by (auto simp add: checkCycle_def Let_def split: option.splits)
            next
              case b: (Some b)
              obtain r cr5 s5 recorded where rec:
                "recordIbEvent x b s
                   (evaluateThresholds x
                      (selectIBPorts x (invokeDataSources c f g (newCheckResult now)))
                      (getThresholdsFunc c)) = (r, cr5, s5, recorded)"
                by (metis prod_cases4)
              from assms(1) nz Some nv f g b rec show ?thesis
                by (cases r) (auto simp add: checkCycle_def Let_def)
            qed
          qed
        qed
      qed
    qed
  qed
qed

text \<open>
  C6. If, in a check cycle, the lookup of the recorder fails, or its insert fails, the
  verdict of the cycle is unhealthy with the reason "error finding ibstat event" (lookup)
  or "error inserting ibstat event" (insert), none of the three analyzers is run and the
  three temporal reasons are empty.
\<close>

theorem store_failure_aborts_analysis:
  assumes "Check x c st now = (cr, st', effects)"
    and "eventBucket c = Some b"
    and "(BucketFind ev \<in> set effects \<and> Find b (bucketState st) ev = Inl e)
         \<or> (BucketInsert ev \<in> set effects \<and> fst (Insert b (bucketState st) ev) = Some e)"
  shows "health cr = HealthStateTypeUnhealthy
         \<and> reason cr = (if BucketInsert ev \<in> set effects
                         then ''error inserting ibstat event''
                         else ''error finding ibstat event'')
         \<and> RunEvaluateIbSwitchFault \<notin> set effects
         \<and> RunEvaluateIbPortDrop \<notin> set effects
         \<and> RunEvaluateIbPortFlap \<notin> set effects
         \<and> reasonIbSwitchFault cr = '''' \<and> reasonIbPortDrop cr = ''''
         \<and> reasonIbPortFlap cr = ''''"
proof -
  obtain s' where cyc: "checkCycle x c (bucketState st) now = (cr, s', effects)"
    using assms(1) by (auto simp add: Check_def split: prod.splits)
  from assms(3) have "BucketFind ev \<in> set effects \<or> BucketInsert ev \<in> set effects
                      \<or> RunEvaluateIbPortFlap \<in> set effects"
    by blast
  from checkCycle_recorded [OF cyc this] assms(2)
  obtain f g r cr5 recorded where
    rec: "recordIbEvent x b (bucketState st)
            (evaluateThresholds x
               (selectIBPorts x (invokeDataSources c f g (newCheckResult now)))
               (getThresholdsFunc c)) = (r, cr5, s', recorded)"
    and eff: "effects = [InvokeIbstatus [IbstatusCommand (toolOverwrites c)],
                         InvokeIbstat [IbstatCommand (toolOverwrites c)]] @ recorded
                 @ (if r = None
                    then [RunEvaluateIbSwitchFault, RunEvaluateIbPortDrop,
                          RunEvaluateIbPortFlap]
                    else [])"
    and res: "cr = (if r = None
                    then evaluateIbPortFlap x c s'
                           (evaluateIbPortDrop x c s' (evaluateIbSwitchFault cr5))
                    else cr5)"
    by auto
  have shape: "recorded = [BucketFind (convertToIbstatEvent x
                  (evaluateThresholds x
                     (selectIBPorts x (invokeDataSources c f g (newCheckResult now)))
                     (getThresholdsFunc c)))]
     \<or> recorded = [BucketFind (convertToIbstatEvent x
                  (evaluateThresholds x
                     (selectIBPorts x (invokeDataSources c f g (newCheckResult now)))
                     (getThresholdsFunc c))),
                   BucketInsert (convertToIbstatEvent x
                  (evaluateThresholds x
                     (selectIBPorts x (invokeDataSources c f g (newCheckResult now)))
                     (getThresholdsFunc c)))]"
    using recordIbEvent_effects [OF rec] .
  have inrec: "(BucketFind ev \<in> set recorded \<and> Find b (bucketState st) ev = Inl e)
         \<or> (BucketInsert ev \<in> set recorded \<and> fst (Insert b (bucketState st) ev) = Some e)"
    using assms(3) eff by (auto split: if_splits)
  have ins: "BucketInsert ev \<in> set effects \<longleftrightarrow> BucketInsert ev \<in> set recorded"
    using eff by (auto split: if_splits)
  note fail = recordIbEvent_failure [OF rec inrec]
  have r: "r = Some e" using fail by simp
  have cr: "cr = cr5" using res r by simp
  have noruns: "RunEvaluateIbSwitchFault \<notin> set effects
         \<and> RunEvaluateIbPortDrop \<notin> set effects
         \<and> RunEvaluateIbPortFlap \<notin> set effects"
    using eff r shape by auto
  have reasons: "reasonIbSwitchFault cr5 = '''' \<and> reasonIbPortDrop cr5 = ''''
         \<and> reasonIbPortFlap cr5 = ''''"
    using fail
    by (simp add: evaluateThresholds_temporal_reasons selectIBPorts_temporal_reasons
                  invokeDataSources_fields newCheckResult_def)
  show ?thesis using fail cr noruns reasons ins by simp
qed


theorem store_failure_aborts_analysis_witness:
  "eventBucket (testComponent (Some (faultyBucket (Some (GoError False ''database is locked'')) None))
        \<lparr>AtLeastPorts = 1, AtLeastRate = 400\<rparr>
        (Some \<lparr>Parsed = [ibstatCard ''mlx5_0'' ''Active'' 400]\<rparr>, None) (None, None))
     = Some (faultyBucket (Some (GoError False ''database is locked'')) None)
   \<and> Find (faultyBucket (Some (GoError False ''database is locked'')) None) []
        \<lparr>Time = 1000, Name = ''ibstat'', Type = EventTypeInfo,
         Message = ''no infiniband issue found (in ibstat/ibstatus)'',
         ExtraInfo = [(''all_ibports'', ''mlx5_0:Active;'')]\<rparr>
       = Inl (GoError False ''database is locked'')
   \<and> snd (snd (Check testExternals
        (testComponent (Some (faultyBucket (Some (GoError False ''database is locked'')) None))
           \<lparr>AtLeastPorts = 1, AtLeastRate = 400\<rparr>
           (Some \<lparr>Parsed = [ibstatCard ''mlx5_0'' ''Active'' 400]\<rparr>, None) (None, None))
        \<lparr>bucketState = [], lastCheckResult = None\<rparr> 1000))
       = [InvokeIbstatus [''ibstatus''], InvokeIbstat [''ibstat''],
          BucketFind \<lparr>Time = 1000, Name = ''ibstat'', Type = EventTypeInfo,
            Message = ''no infiniband issue found (in ibstat/ibstatus)'',
            ExtraInfo = [(''all_ibports'', ''mlx5_0:Active;'')]\<rparr>]
   \<and> health (fst (Check testExternals
        (testComponent (Some (faultyBucket (Some (GoError False ''database is locked'')) None))
           \<lparr>AtLeastPorts = 1, AtLeastRate = 400\<rparr>
           (Some \<lparr>Parsed = [ibstatCard ''mlx5_0'' ''Active'' 400]\<rparr>, None) (None, None))
        \<lparr>bucketState = [], lastCheckResult = None\<rparr> 1000)) = HealthStateTypeUnhealthy
   \<and> reason (fst (Check testExternals
        (testComponent (Some (faultyBucket (Some (GoError False ''database is locked'')) None))
           \<lparr>AtLeastPorts = 1, AtLeastRate = 400\<rparr>
           (Some \<lparr>Parsed = [ibstatCard ''mlx5_0'' ''Active'' 400]\<rparr>, None) (None, None))
        \<lparr>bucketState = [], lastCheckResult = None\<rparr> 1000)) = ''error finding ibstat event''"
proof -
  define c :: "(Event list) component" where
    "c = testComponent (Some (faultyBucket (Some (GoError False ''database is locked'')) None))
           \<lparr>AtLeastPorts = 1, AtLeastRate = 400\<rparr>
           (Some \<lparr>Parsed = [ibstatCard ''mlx5_0'' ''Active'' 400]\<rparr>, None) (None, None)"
  define ev where
    "ev = \<lparr>Time = 1000, Name = ''ibstat'', Type = EventTypeInfo,
            Message = ''no infiniband issue found (in ibstat/ibstatus)'',
            ExtraInfo = [(''all_ibports'', ''mlx5_0:Active;'')]\<rparr>"
  obtain cr st' effects where chk:
    "Check testExternals c \<lparr>bucketState = [], lastCheckResult = None\<rparr> 1000 = (cr, st', effects)"
    by (metis prod_cases3)
  have eff: "effects = [InvokeIbstatus [''ibstatus''], InvokeIbstat [''ibstat''], BucketFind ev]"
    using chk
    by (auto simp add: c_def ev_def Check_def checkCycle_def testComponent_def IsZero_def
          invokeDataSources_def Let_def newCheckResult_def selectIBPorts_def
          evaluateThresholds_def testExternals_def specEvaluatePortsAndRate_def
          recordIbEvent_def convertToIbstatEvent_def faultyBucket_def ibstatCard_def
          testMarshal_def reasonNoIbIssueFoundFromIbstat_def)
  have bk: "eventBucket c = Some (faultyBucket (Some (GoError False ''database is locked'')) None)"
    by (simp add: c_def testComponent_def)
  have fnd: "Find (faultyBucket (Some (GoError False ''database is locked'')) None) [] ev
              = Inl (GoError False ''database is locked'')"
    by (simp add: faultyBucket_def)
  have hyp: "(BucketFind ev \<in> set effects
              \<and> Find (faultyBucket (Some (GoError False ''database is locked'')) None)
                    (bucketState \<lparr>bucketState = [], lastCheckResult = None\<rparr>) ev
                  = Inl (GoError False ''database is locked''))
         \<or> (BucketInsert ev \<in> set effects
              \<and> fst (Insert (faultyBucket (Some (GoError False ''database is locked'')) None)
                    (bucketState \<lparr>bucketState = [], lastCheckResult = None\<rparr>) ev)
                  = Some (GoError False ''database is locked''))"
    using eff fnd by simp
  from store_failure_aborts_analysis [OF chk bk hyp] eff chk bk fnd
  show ?thesis
    unfolding c_def [symmetric] ev_def [symmetric] by simp
qed

subsection \<open>The port list of a cycle\<close>

text \<open>No step after the selection changes the port list or the two outputs.\<close>

lemma evaluateThresholds_outputs:
  "allIBPorts (evaluateThresholds x cr th) = allIBPorts cr
   \<and> IbstatOutput (evaluateThresholds x cr th) = IbstatOutput cr
   \<and> IbstatusOutput (evaluateThresholds x cr th) = IbstatusOutput cr"
  by (auto simp add: evaluateThresholds_def Let_def split: prod.splits option.splits)

lemma recordIbEvent_outputs:
  "recordIbEvent x b s cr = (r, cr', s', recorded) \<Longrightarrow>
     allIBPorts cr' = allIBPorts cr \<and> IbstatOutput cr' = IbstatOutput cr
     \<and> IbstatusOutput cr' = IbstatusOutput cr"
  by (auto simp add: recordIbEvent_def Let_def split: sum.splits option.splits prod.splits)

lemma evaluateIbSwitchFault_outputs:
  "allIBPorts (evaluateIbSwitchFault cr) = allIBPorts cr
   \<and> IbstatOutput (evaluateIbSwitchFault cr) = IbstatOutput cr
   \<and> IbstatusOutput (evaluateIbSwitchFault cr) = IbstatusOutput cr"
  by (simp add: evaluateIbSwitchFault_def)

lemma evaluateIbPortDrop_outputs:
  "allIBPorts (evaluateIbPortDrop x c s cr) = allIBPorts cr
   \<and> IbstatOutput (evaluateIbPortDrop x c s cr) = IbstatOutput cr
   \<and> IbstatusOutput (evaluateIbPortDrop x c s cr) = IbstatusOutput cr"
  by (simp add: evaluateIbPortDrop_def Let_def split: sum.splits)

lemma evaluateIbPortFlap_outputs:
  "allIBPorts (evaluateIbPortFlap x c s cr) = allIBPorts cr
   \<and> IbstatOutput (evaluateIbPortFlap x c s cr) = IbstatOutput cr
   \<and> IbstatusOutput (evaluateIbPortFlap x c s cr) = IbstatusOutput cr"
  by (simp add: evaluateIbPortFlap_def Let_def split: sum.splits)

lemma selectIBPorts_outputs:
  "IbstatOutput (selectIBPorts x cr) = IbstatOutput cr
   \<and> IbstatusOutput (selectIBPorts x cr) = IbstatusOutput cr"
  by (simp add: selectIBPorts_def split: option.splits)

text \<open>
  What \<^verbatim>\<open>Check\<close> does at lines 244 to 248: in every cycle that reaches the recorder, the
  port list handed to threshold evaluation, which is the port list of the result, is the
  primary source's port list whenever the primary source returned an output object; it is
  the fallback's port list when only the fallback returned one; it is empty when neither
  did.
\<close>

lemma port_list_follows_the_output_present:
  assumes "Check x c st now = (cr, st', effects)" and "BucketFind ev \<in> set effects"
  shows "\<exists>f g. getIbstatOutputFunc c = Some f \<and> getIbstatusOutputFunc c = Some g
           \<and> ev = convertToIbstatEvent x
                    (evaluateThresholds x
                       (selectIBPorts x (invokeDataSources c f g (newCheckResult now)))
                       (getThresholdsFunc c))
           \<and> allIBPorts cr =
                allIBPorts (selectIBPorts x (invokeDataSources c f g (newCheckResult now)))
           \<and> allIBPorts cr =
               (case fst (f [IbstatCommand (toolOverwrites c)]) of
                  Some out \<Rightarrow> IBStatCards_IBPorts x (Parsed out)
                | None \<Rightarrow>
                    (case fst (g [IbstatusCommand (toolOverwrites c)]) of
                       Some out \<Rightarrow> IBStatuses_IBPorts x (status_Parsed out)
                     | None \<Rightarrow> []))"
proof -
  obtain s' where cyc: "checkCycle x c (bucketState st) now = (cr, s', effects)"
    using assms(1) by (auto simp add: Check_def split: prod.splits)
  from assms(2) have "BucketFind ev \<in> set effects \<or> BucketInsert ev \<in> set effects
                      \<or> RunEvaluateIbPortFlap \<in> set effects"
    by blast
  from checkCycle_recorded [OF cyc this]
  obtain b f g r cr5 recorded where
    f: "getIbstatOutputFunc c = Some f" and g: "getIbstatusOutputFunc c = Some g"
    and rec: "recordIbEvent x b (bucketState st)
            (evaluateThresholds x
               (selectIBPorts x (invokeDataSources c f g (newCheckResult now)))
               (getThresholdsFunc c)) = (r, cr5, s', recorded)"
    and eff: "effects = [InvokeIbstatus [IbstatusCommand (toolOverwrites c)],
                         InvokeIbstat [IbstatCommand (toolOverwrites c)]] @ recorded
                 @ (if r = None
                    then [RunEvaluateIbSwitchFault, RunEvaluateIbPortDrop,
                          RunEvaluateIbPortFlap]
                    else [])"
    and res: "cr = (if r = None
                    then evaluateIbPortFlap x c s'
                           (evaluateIbPortDrop x c s' (evaluateIbSwitchFault cr5))
                    else cr5)"
    by auto
  have ev: "ev = convertToIbstatEvent x
                    (evaluateThresholds x
                       (selectIBPorts x (invokeDataSources c f g (newCheckResult now)))
                       (getThresholdsFunc c))"
    using recordIbEvent_effects [OF rec] assms(2) eff by (auto split: if_splits)
  have p5: "allIBPorts cr5 =
              allIBPorts (selectIBPorts x (invokeDataSources c f g (newCheckResult now)))"
    using recordIbEvent_outputs [OF rec] by (simp add: evaluateThresholds_outputs)
  have p: "allIBPorts cr = allIBPorts cr5"
    using res
    by (simp add: evaluateIbPortFlap_outputs evaluateIbPortDrop_outputs
                  evaluateIbSwitchFault_outputs)
  have sel: "allIBPorts (selectIBPorts x (invokeDataSources c f g (newCheckResult now))) =
               (case fst (f [IbstatCommand (toolOverwrites c)]) of
                  Some out \<Rightarrow> IBStatCards_IBPorts x (Parsed out)
                | None \<Rightarrow>
                    (case fst (g [IbstatusCommand (toolOverwrites c)]) of
                       Some out \<Rightarrow> IBStatuses_IBPorts x (status_Parsed out)
                     | None \<Rightarrow> []))"
    by (simp add: selectIBPorts_def invokeDataSources_fields newCheckResult_def
             split: option.splits)
  show ?thesis using f g ev p p5 sel by simp
qed

text \<open>
  C9. The port list handed to threshold evaluation is to be the primary source's port
  list whenever that source returned any ports, and otherwise the fallback's; the comments
  of \<^verbatim>\<open>Check\<close> say so ("only fallback to ibstatus if there's no data from ibstat",
  "neither ibstat nor ibstatus command returned any data"). The code departs from it where
  the primary source returns an output without ports and the fallback returns an active
  port: with a policy of one port at rate 400 and an event bucket, threshold evaluation
  is handed the empty list, not the fallback's port list, and the cycle publishes the
  reason "missing ibstat/ibstatus output (skipped evaluation)".
\<close>

theorem empty_primary_output_shadows_fallback:
  "IBStatCards_IBPorts testExternals (Parsed \<lparr>Parsed = []\<rparr>) = []
   \<and> IBStatuses_IBPorts testExternals
        (status_Parsed \<lparr>status_Parsed = [ibstatusDevice ''mlx5_0'' ''Active'']\<rparr>)
       = [\<lparr>Device = ''mlx5_0'', State = ''Active'', PhysicalState = ''LinkUp'', Rate = 0\<rparr>]
   \<and> allIBPorts (fst (Check testExternals
        (testComponent (Some (specBucket (=))) \<lparr>AtLeastPorts = 1, AtLeastRate = 400\<rparr>
           (Some \<lparr>Parsed = []\<rparr>, None)
           (Some \<lparr>status_Parsed = [ibstatusDevice ''mlx5_0'' ''Active'']\<rparr>, None))
        \<lparr>bucketState = [], lastCheckResult = None\<rparr> 1000)) = []
   \<and> allIBPorts (fst (Check testExternals
        (testComponent (Some (specBucket (=))) \<lparr>AtLeastPorts = 1, AtLeastRate = 400\<rparr>
           (Some \<lparr>Parsed = []\<rparr>, None)
           (Some \<lparr>status_Parsed = [ibstatusDevice ''mlx5_0'' ''Active'']\<rparr>, None))
        \<lparr>bucketState = [], lastCheckResult = None\<rparr> 1000))
       \<noteq> IBStatuses_IBPorts testExternals
           (status_Parsed \<lparr>status_Parsed = [ibstatusDevice ''mlx5_0'' ''Active'']\<rparr>)
   \<and> reason (fst (Check testExternals
        (testComponent (Some (specBucket (=))) \<lparr>AtLeastPorts = 1, AtLeastRate = 400\<rparr>
           (Some \<lparr>Parsed = []\<rparr>, None)
           (Some \<lparr>status_Parsed = [ibstatusDevice ''mlx5_0'' ''Active'']\<rparr>, None))
        \<lparr>bucketState = [], lastCheckResult = None\<rparr> 1000))
       = ''missing ibstat/ibstatus output (skipped evaluation)''"
  by (simp add: Check_def checkCycle_def testComponent_def IsZero_def
          invokeDataSources_def Let_def newCheckResult_def selectIBPorts_def
          evaluateThresholds_def testExternals_def
          recordIbEvent_def convertToIbstatEvent_def specBucket_def ibstatusDevice_def
          reasonMissingIbstatIbstatusOutput_def evaluateIbSwitchFault_def
          evaluateIbPortDrop_def evaluateIbPortFlap_def readAllIbstatEvents_def
          time_IsZero_def time_Add_def Minute_def)

subsection \<open>Recording is idempotent\<close>

lemma recordIbEvent_found:
  "Find b s (convertToIbstatEvent x cr) = Inr (Some found) \<Longrightarrow>
     recordIbEvent x b s cr = (None, cr, s, [BucketFind (convertToIbstatEvent x cr)])"
  by (simp add: recordIbEvent_def Let_def)

text \<open>
  C8. The recorder queries the store for an equivalent event before it inserts, and skips
  the insert when one is found. So, when the store holds no event equivalent to the event
  of the first cycle and the event of the second cycle is equivalent to it, recording the
  two in turn issues the lookup and the insert for the first and only the lookup for the
  second, and the store ends with exactly one event more, the event of the first cycle.
\<close>

theorem recording_twice_stores_once:
  assumes "\<forall>e \<in> set s0. \<not> equivalent (convertToIbstatEvent x cr1) e"
    and "equivalent (convertToIbstatEvent x cr2) (convertToIbstatEvent x cr1)"
    and "recordIbEvent x (specBucket equivalent) s0 cr1 = (r1, cr1', s1, recorded1)"
    and "recordIbEvent x (specBucket equivalent) s1 cr2 = (r2, cr2', s2, recorded2)"
  shows "r1 = None \<and> r2 = None
         \<and> recorded1 = [BucketFind (convertToIbstatEvent x cr1),
                         BucketInsert (convertToIbstatEvent x cr1)]
         \<and> recorded2 = [BucketFind (convertToIbstatEvent x cr2)]
         \<and> s1 = s0 @ [convertToIbstatEvent x cr1]
         \<and> s2 = s0 @ [convertToIbstatEvent x cr1]
         \<and> cr2' = cr2"
proof -
  have none: "List.find (equivalent (convertToIbstatEvent x cr1)) s0 = None"
    using assms(1) by (simp add: find_None_iff)
  have first: "r1 = None \<and> s1 = s0 @ [convertToIbstatEvent x cr1]
     \<and> recorded1 = [BucketFind (convertToIbstatEvent x cr1),
                     BucketInsert (convertToIbstatEvent x cr1)]"
    using assms(3) none by (auto simp add: recordIbEvent_def specBucket_def Let_def)
  have "List.find (equivalent (convertToIbstatEvent x cr2)) s1 \<noteq> None"
    using assms(2) first by (auto simp add: find_None_iff)
  then obtain found where
    "Find (specBucket equivalent) s1 (convertToIbstatEvent x cr2) = Inr (Some found)"
    by (auto simp add: specBucket_def)
  from recordIbEvent_found [OF this] assms(4)
  have "r2 = None \<and> cr2' = cr2 \<and> s2 = s1
        \<and> recorded2 = [BucketFind (convertToIbstatEvent x cr2)]"
    by simp
  with first show ?thesis by simp
qed

theorem recording_twice_stores_once_witness:
  "(\<lambda>a b. Message a = Message b \<and> Type a = Type b \<and> ExtraInfo a = ExtraInfo b)
     (convertToIbstatEvent testExternals ((newCheckResult 61000)
        \<lparr>reason := reasonMissingIbstatIbstatusOutput, health := HealthStateTypeHealthy\<rparr>))
     (convertToIbstatEvent testExternals ((newCheckResult 1000)
        \<lparr>reason := reasonMissingIbstatIbstatusOutput, health := HealthStateTypeHealthy\<rparr>))
   \<and> snd (snd (recordIbEvent testExternals
        (specBucket (\<lambda>a b. Message a = Message b \<and> Type a = Type b \<and> ExtraInfo a = ExtraInfo b))
        (fst (snd (snd (recordIbEvent testExternals
           (specBucket (\<lambda>a b. Message a = Message b \<and> Type a = Type b
                               \<and> ExtraInfo a = ExtraInfo b))
           [] ((newCheckResult 1000)
               \<lparr>reason := reasonMissingIbstatIbstatusOutput,
                health := HealthStateTypeHealthy\<rparr>)))))
        ((newCheckResult 61000)
               \<lparr>reason := reasonMissingIbstatIbstatusOutput,
                health := HealthStateTypeHealthy\<rparr>)))
     = ([\<lparr>Time = 1000, Name = ''ibstat'', Type = EventTypeInfo,
          Message = ''missing ibstat/ibstatus output (skipped evaluation)'',
          ExtraInfo = [(''all_ibports'', ''[]'')]\<rparr>],
        [BucketFind \<lparr>Time = 61000, Name = ''ibstat'', Type = EventTypeInfo,
          Message = ''missing ibstat/ibstatus output (skipped evaluation)'',
          ExtraInfo = [(''all_ibports'', ''[]'')]\<rparr>])"
proof -
  define eqv :: "Event \<Rightarrow> Event \<Rightarrow> bool" where
    "eqv = (\<lambda>a b. Message a = Message b \<and> Type a = Type b \<and> ExtraInfo a = ExtraInfo b)"
  define cr1 where
    "cr1 = (newCheckResult 1000)
               \<lparr>reason := reasonMissingIbstatIbstatusOutput,
                health := HealthStateTypeHealthy\<rparr>"
  define cr2 where
    "cr2 = (newCheckResult 61000)
               \<lparr>reason := reasonMissingIbstatIbstatusOutput,
                health := HealthStateTypeHealthy\<rparr>"
  obtain r1 cr1' s1 recorded1 where rec1:
    "recordIbEvent testExternals (specBucket eqv) [] cr1 = (r1, cr1', s1, recorded1)"
    by (metis prod_cases4)
  obtain r2 cr2' s2 recorded2 where rec2:
    "recordIbEvent testExternals (specBucket eqv) s1 cr2 = (r2, cr2', s2, recorded2)"
    by (metis prod_cases4)
  have h1: "\<forall>e \<in> set ([] :: Event list). \<not> eqv (convertToIbstatEvent testExternals cr1) e"
    by simp
  have h2: "eqv (convertToIbstatEvent testExternals cr2) (convertToIbstatEvent testExternals cr1)"
    by (simp add: eqv_def cr1_def cr2_def convertToIbstatEvent_def newCheckResult_def)
  from recording_twice_stores_once [OF h1 h2 rec1 rec2] rec1 rec2 h2
  show ?thesis
    unfolding eqv_def [symmetric] cr1_def [symmetric] cr2_def [symmetric]
    by (simp add: cr1_def cr2_def convertToIbstatEvent_def newCheckResult_def
                  reasonMissingIbstatIbstatusOutput_def)
qed


subsection \<open>The verdict of a cycle that runs to its end\<close>

text \<open>
  Threshold evaluation always decides between healthy and unhealthy, a recorder that
  succeeds keeps the verdict, and the analyzers touch neither the verdict nor the error.
\<close>

lemma evaluateThresholds_decides:
  "health (evaluateThresholds x cr th) = HealthStateTypeHealthy
   \<or> health (evaluateThresholds x cr th) = HealthStateTypeUnhealthy"
  by (auto simp add: evaluateThresholds_def Let_def split: prod.splits option.splits)

lemma recordIbEvent_verdict:
  "recordIbEvent x b s cr = (r, cr', s', recorded) \<Longrightarrow>
     (r = None \<longrightarrow> health cr' = health cr \<and> (err cr' = None \<or> err cr' = err cr))
     \<and> (r \<noteq> None \<longrightarrow> health cr' = HealthStateTypeUnhealthy)"
  by (auto simp add: recordIbEvent_def Let_def split: sum.splits option.splits prod.splits)

lemma analyzers_keep_verdict:
  "health (evaluateIbSwitchFault cr) = health cr \<and> err (evaluateIbSwitchFault cr) = err cr
   \<and> health (evaluateIbPortDrop x c s cr) = health cr
   \<and> err (evaluateIbPortDrop x c s cr) = err cr
   \<and> health (evaluateIbPortFlap x c s cr) = health cr
   \<and> err (evaluateIbPortFlap x c s cr) = err cr"
  by (simp add: evaluateIbSwitchFault_def evaluateIbPortDrop_def evaluateIbPortFlap_def Let_def
           split: sum.splits)

lemma invokeDataSources_err:
  "err (invokeDataSources c f g cr) = snd (f [IbstatCommand (toolOverwrites c)])"
  by (simp add: invokeDataSources_def Let_def split: option.splits)

lemma selectIBPorts_err: "err (selectIBPorts x cr) = err cr"
  by (simp add: selectIBPorts_def split: option.splits)

text \<open>
  The override in a cycle that reaches the analyzers: when the primary source returns an
  error with a non-empty port list that meets the policy, such a cycle publishes a healthy
  verdict with an empty error.
\<close>

lemma partial_output_cycle:
  assumes "Check x c st now = (cr, st', effects)"
    and "RunEvaluateIbPortFlap \<in> set effects"
    and "getIbstatOutputFunc c = Some f"
    and "f [IbstatCommand (toolOverwrites c)] = (Some out, Some e)"
    and "IBStatCards_IBPorts x (Parsed out) \<noteq> []"
    and "snd (EvaluatePortsAndRate x (IBStatCards_IBPorts x (Parsed out))
                (AtLeastPorts (getThresholdsFunc c)) (AtLeastRate (getThresholdsFunc c))) = None"
  shows "health cr = HealthStateTypeHealthy \<and> err cr = None
         \<and> map hsError (HealthStates x later (Some cr)) = ['''']"
proof -
  obtain s' where cyc: "checkCycle x c (bucketState st) now = (cr, s', effects)"
    using assms(1) by (auto simp add: Check_def split: prod.splits)
  have reached: "BucketFind ev \<in> set effects \<or> BucketInsert ev \<in> set effects
                 \<or> RunEvaluateIbPortFlap \<in> set effects" for ev
    using assms(2) by blast
  from checkCycle_recorded [OF cyc reached] assms(3)
  obtain b g r cr5 recorded where
    nz: "\<not> IsZero (getThresholdsFunc c)"
    and rec: "recordIbEvent x b (bucketState st)
            (evaluateThresholds x
               (selectIBPorts x (invokeDataSources c f g (newCheckResult now)))
               (getThresholdsFunc c)) = (r, cr5, s', recorded)"
    and eff: "effects = [InvokeIbstatus [IbstatusCommand (toolOverwrites c)],
                         InvokeIbstat [IbstatCommand (toolOverwrites c)]] @ recorded
                 @ (if r = None
                    then [RunEvaluateIbSwitchFault, RunEvaluateIbPortDrop,
                          RunEvaluateIbPortFlap]
                    else [])"
    and res: "cr = (if r = None
                    then evaluateIbPortFlap x c s'
                           (evaluateIbPortDrop x c s' (evaluateIbSwitchFault cr5))
                    else cr5)"
    by auto
  define cr3 where "cr3 = selectIBPorts x (invokeDataSources c f g (newCheckResult now))"
  have r: "r = None"
    using recordIbEvent_effects [OF rec] eff assms(2) by (auto split: if_splits)
  have e3: "err cr3 = Some e"
    by (simp add: cr3_def selectIBPorts_err invokeDataSources_err assms(4))
  have p3: "allIBPorts cr3 = IBStatCards_IBPorts x (Parsed out)"
    by (simp add: cr3_def selectIBPorts_def invokeDataSources_fields assms(4))
  from p3 assms(5) have ne: "allIBPorts cr3 \<noteq> []" by simp
  from p3 assms(6)
  have ok: "snd (EvaluatePortsAndRate x (allIBPorts cr3)
                (AtLeastPorts (getThresholdsFunc c)) (AtLeastRate (getThresholdsFunc c))) = None"
    by simp
  have four: "health (evaluateThresholds x cr3 (getThresholdsFunc c)) = HealthStateTypeHealthy
              \<and> err (evaluateThresholds x cr3 (getThresholdsFunc c)) = None"
    using e3 ne nz ok
    by (auto simp add: evaluateThresholds_def Let_def split: prod.splits option.splits)
  have five: "health cr5 = HealthStateTypeHealthy \<and> err cr5 = None"
    using recordIbEvent_verdict [OF rec [folded cr3_def]] r four by auto
  have "health cr = HealthStateTypeHealthy \<and> err cr = None"
    using res r five by (simp add: analyzers_keep_verdict)
  then show ?thesis by (simp add: HealthStates_def getError_def Let_def)
qed

subsection \<open>The override of a partial output, over the whole cycle\<close>

lemma recordIbEvent_error_cause:
  "recordIbEvent x b s cr = (Some e, cr', s', recorded) \<Longrightarrow>
     (BucketFind (convertToIbstatEvent x cr) \<in> set recorded
        \<and> Find b s (convertToIbstatEvent x cr) = Inl e)
     \<or> (BucketInsert (convertToIbstatEvent x cr) \<in> set recorded
        \<and> fst (Insert b s (convertToIbstatEvent x cr)) = Some e)"
  by (auto simp add: recordIbEvent_def Let_def split: sum.splits option.splits prod.splits)

text \<open>
  With an event bucket, a cycle that does not reach the recorder has returned early:
  healthy, and with no error.
\<close>

lemma checkCycle_early_return:
  assumes "checkCycle x c s now = (cr, s', effects)"
    and "eventBucket c = Some b"
    and "\<And>ev. BucketFind ev \<notin> set effects"
  shows "health cr = HealthStateTypeHealthy \<and> err cr = None"
proof (cases "IsZero (getThresholdsFunc c)")
  case True
  with assms(1) show ?thesis by (auto simp add: checkCycle_def Let_def newCheckResult_def)
next
  case nz: False
  show ?thesis
  proof (cases "nvmlInstance c")
    case None
    with assms(1) nz show ?thesis by (auto simp add: checkCycle_def Let_def newCheckResult_def)
  next
    case (Some nvml)
    show ?thesis
    proof (cases "NVMLExists nvml \<and> ProductName nvml \<noteq> ''''")
      case False
      with assms(1) nz Some show ?thesis
        by (auto simp add: checkCycle_def Let_def newCheckResult_def split: if_splits)
    next
      case nv: True
      show ?thesis
      proof (cases "getIbstatOutputFunc c")
        case None
        with assms(1) nz Some nv show ?thesis
          by (auto simp add: checkCycle_def Let_def newCheckResult_def split: option.splits)
      next
        case f: (Some f)
        show ?thesis
        proof (cases "getIbstatusOutputFunc c")
          case None
          with assms(1) nz Some nv f show ?thesis
            by (auto simp add: checkCycle_def Let_def newCheckResult_def split: option.splits)
        next
          case g: (Some g)
          obtain r cr5 s5 recorded where rec:
            "recordIbEvent x b s
               (evaluateThresholds x
                  (selectIBPorts x (invokeDataSources c f g (newCheckResult now)))
                  (getThresholdsFunc c)) = (r, cr5, s5, recorded)"
            by (metis prod_cases4)
          from assms(1) nz Some nv f g assms(2) rec
          have "set recorded \<subseteq> set effects"
            by (cases r) (auto simp add: checkCycle_def Let_def)
          with recordIbEvent_effects [OF rec] assms(3) show ?thesis by auto
        qed
      qed
    qed
  qed
qed

text \<open>
  C4, as the code has it. If the primary source returns an error together with a
  non-empty port list and \<^verbatim>\<open>EvaluatePortsAndRate\<close> reports no violation of the policy for
  that list, then, in a cycle of a component that has an event bucket and in which neither
  the lookup nor the insert of the recorder fails, the verdict is healthy and the
  published error is empty: the error of the primary source is discarded.
\<close>

theorem partial_output_discards_error:
  assumes "Check x c st now = (cr, st', effects)"
    and "getIbstatOutputFunc c = Some f"
    and "f [IbstatCommand (toolOverwrites c)] = (Some out, Some e)"
    and "IBStatCards_IBPorts x (Parsed out) \<noteq> []"
    and "snd (EvaluatePortsAndRate x (IBStatCards_IBPorts x (Parsed out))
                (AtLeastPorts (getThresholdsFunc c)) (AtLeastRate (getThresholdsFunc c))) = None"
    and "eventBucket c = Some b"
    and "\<And>ev e'. BucketFind ev \<in> set effects \<Longrightarrow> Find b (bucketState st) ev \<noteq> Inl e'"
    and "\<And>ev e'. BucketInsert ev \<in> set effects
                   \<Longrightarrow> fst (Insert b (bucketState st) ev) \<noteq> Some e'"
  shows "health cr = HealthStateTypeHealthy \<and> err cr = None
         \<and> map hsError (HealthStates x later (Some cr)) = ['''']"
proof (cases "\<exists>ev. BucketFind ev \<in> set effects")
  case False
  obtain s' where cyc: "checkCycle x c (bucketState st) now = (cr, s', effects)"
    using assms(1) by (auto simp add: Check_def split: prod.splits)
  from False have "BucketFind ev \<notin> set effects" for ev by blast
  from checkCycle_early_return [OF cyc assms(6) this]
  show ?thesis by (simp add: HealthStates_def getError_def Let_def)
next
  case True
  then obtain ev0 where ev0: "BucketFind ev0 \<in> set effects" by blast
  obtain s' where cyc: "checkCycle x c (bucketState st) now = (cr, s', effects)"
    using assms(1) by (auto simp add: Check_def split: prod.splits)
  have reached: "BucketFind ev0 \<in> set effects \<or> BucketInsert ev0 \<in> set effects
                 \<or> RunEvaluateIbPortFlap \<in> set effects"
    using ev0 by blast
  from checkCycle_recorded [OF cyc reached] assms(2) assms(6)
  obtain g r cr5 recorded where
    rec: "recordIbEvent x b (bucketState st)
            (evaluateThresholds x
               (selectIBPorts x (invokeDataSources c f g (newCheckResult now)))
               (getThresholdsFunc c)) = (r, cr5, s', recorded)"
    and eff: "effects = [InvokeIbstatus [IbstatusCommand (toolOverwrites c)],
                         InvokeIbstat [IbstatCommand (toolOverwrites c)]] @ recorded
                 @ (if r = None
                    then [RunEvaluateIbSwitchFault, RunEvaluateIbPortDrop,
                          RunEvaluateIbPortFlap]
                    else [])"
    by auto
  have r: "r = None"
  proof (cases r)
    case None
    then show ?thesis .
  next
    case (Some e')
    from recordIbEvent_error_cause [OF rec [unfolded Some]] eff
    have "(\<exists>ev. BucketFind ev \<in> set effects \<and> Find b (bucketState st) ev = Inl e')
          \<or> (\<exists>ev. BucketInsert ev \<in> set effects
                   \<and> fst (Insert b (bucketState st) ev) = Some e')"
      by auto
    with assms(7,8) show ?thesis by blast
  qed
  with eff have "RunEvaluateIbPortFlap \<in> set effects" by simp
  from partial_output_cycle [OF assms(1) this assms(2) assms(3) assms(4) assms(5)]
  show ?thesis .
qed

theorem partial_output_discards_error_witness:
  "map_option (\<lambda>f. f [''ibstat''])
     (getIbstatOutputFunc
       (testComponent (Some (specBucket (=))) \<lparr>AtLeastPorts = 1, AtLeastRate = 400\<rparr>
          (Some \<lparr>Parsed = [ibstatCard ''mlx5_0'' ''Active'' 400]\<rparr>,
           Some (GoError False ''exit status 255'')) (None, None)))
     = Some (Some \<lparr>Parsed = [ibstatCard ''mlx5_0'' ''Active'' 400]\<rparr>,
             Some (GoError False ''exit status 255''))
   \<and> IBStatCards_IBPorts testExternals [ibstatCard ''mlx5_0'' ''Active'' 400]
       = [\<lparr>Device = ''mlx5_0'', State = ''Active'', PhysicalState = ''LinkUp'', Rate = 400\<rparr>]
   \<and> snd (EvaluatePortsAndRate testExternals
            (IBStatCards_IBPorts testExternals [ibstatCard ''mlx5_0'' ''Active'' 400]) 1 400)
       = None
   \<and> snd (snd (Check testExternals
        (testComponent (Some (specBucket (=))) \<lparr>AtLeastPorts = 1, AtLeastRate = 400\<rparr>
           (Some \<lparr>Parsed = [ibstatCard ''mlx5_0'' ''Active'' 400]\<rparr>,
            Some (GoError False ''exit status 255'')) (None, None))
        \<lparr>bucketState = [], lastCheckResult = None\<rparr> 1000))
       = [InvokeIbstatus [''ibstatus''], InvokeIbstat [''ibstat''],
          BucketFind \<lparr>Time = 1000, Name = ''ibstat'', Type = EventTypeInfo,
            Message = ''no infiniband issue found (in ibstat/ibstatus)'',
            ExtraInfo = [(''all_ibports'', ''mlx5_0:Active;'')]\<rparr>,
          BucketInsert \<lparr>Time = 1000, Name = ''ibstat'', Type = EventTypeInfo,
            Message = ''no infiniband issue found (in ibstat/ibstatus)'',
            ExtraInfo = [(''all_ibports'', ''mlx5_0:Active;'')]\<rparr>,
          RunEvaluateIbSwitchFault, RunEvaluateIbPortDrop, RunEvaluateIbPortFlap]
   \<and> health (fst (Check testExternals
        (testComponent (Some (specBucket (=))) \<lparr>AtLeastPorts = 1, AtLeastRate = 400\<rparr>
           (Some \<lparr>Parsed = [ibstatCard ''mlx5_0'' ''Active'' 400]\<rparr>,
            Some (GoError False ''exit status 255'')) (None, None))
        \<lparr>bucketState = [], lastCheckResult = None\<rparr> 1000)) = HealthStateTypeHealthy
   \<and> map hsError (HealthStates testExternals 2000 (Some (fst (Check testExternals
        (testComponent (Some (specBucket (=))) \<lparr>AtLeastPorts = 1, AtLeastRate = 400\<rparr>
           (Some \<lparr>Parsed = [ibstatCard ''mlx5_0'' ''Active'' 400]\<rparr>,
            Some (GoError False ''exit status 255'')) (None, None))
        \<lparr>bucketState = [], lastCheckResult = None\<rparr> 1000)))) = ['''']"
proof -
  define c :: "(Event list) component" where
    "c = testComponent (Some (specBucket (=))) \<lparr>AtLeastPorts = 1, AtLeastRate = 400\<rparr>
           (Some \<lparr>Parsed = [ibstatCard ''mlx5_0'' ''Active'' 400]\<rparr>,
            Some (GoError False ''exit status 255'')) (None, None)"
  define ev where
    "ev = \<lparr>Time = 1000, Name = ''ibstat'', Type = EventTypeInfo,
            Message = ''no infiniband issue found (in ibstat/ibstatus)'',
            ExtraInfo = [(''all_ibports'', ''mlx5_0:Active;'')]\<rparr>"
  obtain cr st' effects where chk:
    "Check testExternals c \<lparr>bucketState = [], lastCheckResult = None\<rparr> 1000 = (cr, st', effects)"
    by (metis prod_cases3)
  have eff: "effects = [InvokeIbstatus [''ibstatus''], InvokeIbstat [''ibstat''],
                        BucketFind ev, BucketInsert ev,
                        RunEvaluateIbSwitchFault, RunEvaluateIbPortDrop, RunEvaluateIbPortFlap]"
    using chk
    by (auto simp add: c_def ev_def Check_def checkCycle_def testComponent_def IsZero_def
          invokeDataSources_def Let_def newCheckResult_def selectIBPorts_def
          evaluateThresholds_def testExternals_def specEvaluatePortsAndRate_def
          recordIbEvent_def convertToIbstatEvent_def specBucket_def ibstatCard_def
          testMarshal_def reasonNoIbIssueFoundFromIbstat_def)
  have h2: "getIbstatOutputFunc c
              = Some (\<lambda>cmds. (Some \<lparr>Parsed = [ibstatCard ''mlx5_0'' ''Active'' 400]\<rparr>,
                              Some (GoError False ''exit status 255'')))"
    by (simp add: c_def testComponent_def)
  have h3: "(\<lambda>cmds. (Some \<lparr>Parsed = [ibstatCard ''mlx5_0'' ''Active'' 400]\<rparr>,
                     Some (GoError False ''exit status 255'')))
              [IbstatCommand (toolOverwrites c)]
            = (Some \<lparr>Parsed = [ibstatCard ''mlx5_0'' ''Active'' 400]\<rparr>,
               Some (GoError False ''exit status 255''))"
    by simp
  have h4: "IBStatCards_IBPorts testExternals
              (Parsed \<lparr>Parsed = [ibstatCard ''mlx5_0'' ''Active'' 400]\<rparr>) \<noteq> []"
    by (simp add: testExternals_def)
  have h5: "snd (EvaluatePortsAndRate testExternals
              (IBStatCards_IBPorts testExternals
                 (Parsed \<lparr>Parsed = [ibstatCard ''mlx5_0'' ''Active'' 400]\<rparr>))
              (AtLeastPorts (getThresholdsFunc c)) (AtLeastRate (getThresholdsFunc c))) = None"
    by (simp add: c_def testComponent_def testExternals_def specEvaluatePortsAndRate_def
          ibstatCard_def)
  have h6: "eventBucket c = Some (specBucket (=))"
    by (simp add: c_def testComponent_def)
  have h7: "Find (specBucket (=)) (bucketState \<lparr>bucketState = [], lastCheckResult = None\<rparr>) a
              \<noteq> Inl e'" for a e'
    by (simp add: specBucket_def)
  have h8: "fst (Insert (specBucket (=))
                   (bucketState \<lparr>bucketState = [], lastCheckResult = None\<rparr>) a) \<noteq> Some e'"
    for a e'
    by (simp add: specBucket_def)
  from partial_output_discards_error [OF chk h2 h3 h4 h5 h6 h7 h8, where later = 2000]
    chk eff h5
  show ?thesis
    unfolding c_def [symmetric] ev_def [symmetric]
    by (simp add: c_def testComponent_def testExternals_def ibstatCard_def)
qed

text \<open>
  C4 as stated fails in two cycles whose primary source returns the error "exit status
  255" with one active port at rate 400, which meets the policy of one port at rate 400.
  When the lookup of the recorder fails the verdict is unhealthy and the error of the
  store is published; when the component has no event bucket the verdict is healthy but
  the error of the primary source is published.
\<close>

theorem partial_output_error_survives_counterexample:
  "snd (EvaluatePortsAndRate testExternals
          (IBStatCards_IBPorts testExternals [ibstatCard ''mlx5_0'' ''Active'' 400]) 1 400)
     = None
   \<and> health (fst (Check testExternals
        (testComponent (Some (faultyBucket (Some (GoError False ''database is locked'')) None))
           \<lparr>AtLeastPorts = 1, AtLeastRate = 400\<rparr>
           (Some \<lparr>Parsed = [ibstatCard ''mlx5_0'' ''Active'' 400]\<rparr>,
            Some (GoError False ''exit status 255'')) (None, None))
        \<lparr>bucketState = [], lastCheckResult = None\<rparr> 1000)) = HealthStateTypeUnhealthy
   \<and> map hsError (HealthStates testExternals 2000 (Some (fst (Check testExternals
        (testComponent (Some (faultyBucket (Some (GoError False ''database is locked'')) None))
           \<lparr>AtLeastPorts = 1, AtLeastRate = 400\<rparr>
           (Some \<lparr>Parsed = [ibstatCard ''mlx5_0'' ''Active'' 400]\<rparr>,
            Some (GoError False ''exit status 255'')) (None, None))
        \<lparr>bucketState = [], lastCheckResult = None\<rparr> 1000)))) = [''database is locked'']
   \<and> health (fst (Check testExternals
        (testComponent (None :: (Event list) Bucket option)
           \<lparr>AtLeastPorts = 1, AtLeastRate = 400\<rparr>
           (Some \<lparr>Parsed = [ibstatCard ''mlx5_0'' ''Active'' 400]\<rparr>,
            Some (GoError False ''exit status 255'')) (None, None))
        \<lparr>bucketState = [], lastCheckResult = None\<rparr> 1000)) = HealthStateTypeHealthy
   \<and> map hsError (HealthStates testExternals 2000 (Some (fst (Check testExternals
        (testComponent (None :: (Event list) Bucket option)
           \<lparr>AtLeastPorts = 1, AtLeastRate = 400\<rparr>
           (Some \<lparr>Parsed = [ibstatCard ''mlx5_0'' ''Active'' 400]\<rparr>,
            Some (GoError False ''exit status 255'')) (None, None))
        \<lparr>bucketState = [], lastCheckResult = None\<rparr> 1000)))) = [''exit status 255'']"
  by (simp add: Check_def checkCycle_def testComponent_def IsZero_def
          invokeDataSources_def Let_def newCheckResult_def selectIBPorts_def
          evaluateThresholds_def testExternals_def specEvaluatePortsAndRate_def
          recordIbEvent_def convertToIbstatEvent_def faultyBucket_def ibstatCard_def
          testMarshal_def HealthStates_def getError_def)

subsection \<open>Durations and the message lists\<close>

lemma time_Sub_negative: "time_Sub t u < 0 \<longleftrightarrow> t - u < 0"
  by (simp add: time_Sub_def maxDuration_def minDuration_def)

lemma time_Sub_four_minutes: "time_Sub t u < 4 * Minute \<longleftrightarrow> t - u < 4 * Minute"
  by (simp add: time_Sub_def maxDuration_def minDuration_def Minute_def)

lemma time_Sub_over_four_minutes: "time_Sub t u > 4 * Minute \<longleftrightarrow> t - u > 4 * Minute"
  by (simp add: time_Sub_def maxDuration_def minDuration_def Minute_def)

lemma map_filter_if:
  "List.map_filter (\<lambda>e. if P e then Some (f e) else None) xs = map f (filter P xs)"
  by (induction xs) simp_all

lemma readAllIbstatEvents_nonempty_bucket:
  "readAllIbstatEvents c s since = Inr evs \<Longrightarrow> evs \<noteq> [] \<Longrightarrow> eventBucket c \<noteq> None"
  by (cases "eventBucket c") (auto simp add: readAllIbstatEvents_def)

text \<open>
  Go ranges over a map in no fixed order: whatever the order of the entries, the sorted
  messages are the same.
\<close>

lemma sorted_messages_order_immaterial:
  assumes "distinct (map fst xs)" and "distinct (map fst ys)" and "set xs = set ys"
  shows "sort (map f xs) = sort (map f ys)"
proof -
  have "distinct xs" and "distinct ys"
    using assms(1,2) by (simp_all add: distinct_map)
  with assms(3) have "mset xs = mset ys"
    by (simp add: set_eq_iff_mset_eq_distinct)
  then have "mset (sort (map f ys)) = mset (map f xs)" by simp
  then show ?thesis by (rule properties_for_sort) simp
qed

lemma dropMsg_eq:
  "dropMsg x now entry =
     (if 4 * Minute \<le> now - snd entry then Some (dropText x now entry) else None)"
proof -
  have pos: "0 < 4 * Minute" by (simp add: Minute_def)
  obtain dev t where e: "entry = (dev, t)" by (cases entry)
  show ?thesis
  proof (cases "4 * Minute \<le> now - t")
    case True
    with pos have "\<not> now - t < 0" and "\<not> now - t < 4 * Minute" by linarith+
    with True e show ?thesis
      by (simp add: dropMsg_def dropText_def Let_def time_Sub_negative time_Sub_four_minutes)
  next
    case False
    then have "now - t < 4 * Minute" by linarith
    with False e show ?thesis
      by (simp add: dropMsg_def Let_def time_Sub_four_minutes)
  qed
qed

lemma flapMsg_eq:
  "flapMsg entry = (if 2 \<le> length (snd entry) then Some (flapText entry) else None)"
  by (cases entry) (auto simp add: flapMsg_def flapText_def Let_def)

subsection \<open>The port drop\<close>

text \<open>The scan of the drop analyzer is one pass over the readings.\<close>

lemma foldl_trackDroppedPort:
  "foldl (trackDroppedPort t) m ports = foldl trackReading m (map (\<lambda>port. (t, port)) ports)"
  by (induction ports arbitrary: m) (simp_all add: trackReading_def)

lemma trackDroppedSince_readings_from:
  "foldl (\<lambda>droppedSince ev.
            foldl (trackDroppedPort (Time ev)) droppedSince (parseIBPortsFromEvent x ev)) m evs
     = foldl trackReading m (readings x evs)"
  by (induction evs arbitrary: m) (simp_all add: readings_def foldl_trackDroppedPort)

lemma trackDroppedSince_readings:
  "trackDroppedSince x evs = foldl trackReading [] (readings x evs)"
  by (simp add: trackDroppedSince_def trackDroppedSince_readings_from)

lemma map_of_trackReading:
  "map_of (trackReading m r) dev =
     (if Device (snd r) = dev
      then (if State (snd r) \<noteq> ''Down'' then None
            else (case map_of m dev of None \<Rightarrow> Some (fst r) | Some t \<Rightarrow> Some t))
      else map_of m dev)"
  by (auto simp add: trackReading_def trackDroppedPort_def update_conv' delete_conv'
           split: option.splits)

lemma distinct_trackReading:
  "distinct (map fst m) \<Longrightarrow> distinct (map fst (trackReading m r))"
  by (simp add: trackReading_def trackDroppedPort_def distinct_update distinct_delete)

lemma distinct_foldl_trackReading:
  "distinct (map fst m) \<Longrightarrow> distinct (map fst (foldl trackReading m rs))"
  by (induction rs arbitrary: m) (simp_all add: distinct_trackReading)

lemma downRun_snoc:
  "downRun (rs @ [r]) dev =
     (if Device (snd r) = dev
      then (if State (snd r) = ''Down'' then downRun rs dev @ [r] else [])
      else downRun rs dev)"
  by (simp add: downRun_def)

lemma firstDown_snoc:
  "firstDown (rs @ [r]) dev =
     (if Device (snd r) = dev
      then (if State (snd r) \<noteq> ''Down'' then None
            else (case firstDown rs dev of None \<Rightarrow> Some (fst r) | Some t \<Rightarrow> Some t))
      else firstDown rs dev)"
  by (cases "downRun rs dev") (simp_all add: firstDown_def downRun_snoc)

text \<open>
  In words: a device has no time since which it is down exactly when the history has no
  reading of it or its last reading is in another state than "Down"; and the device is
  down since \<open>t\<close> exactly when some reading at time \<open>t\<close> records it down, every later
  reading of the device records it down, and before that reading it was not down.
\<close>

lemma firstDown_None_iff:
  "firstDown rs dev = None \<longleftrightarrow>
     (filter (\<lambda>r. Device (snd r) = dev) rs = []
      \<or> State (snd (last (filter (\<lambda>r. Device (snd r) = dev) rs))) \<noteq> ''Down'')"
proof (induction rs rule: rev_induct)
  case Nil
  show ?case by (simp add: firstDown_def downRun_def)
next
  case (snoc r rs)
  then show ?case by (auto simp add: firstDown_snoc split: option.splits)
qed

lemma firstDown_Some_iff:
  "firstDown rs dev = Some t \<longleftrightarrow>
     (\<exists>pre r post.
        rs = pre @ r # post \<and> fst r = t \<and> Device (snd r) = dev \<and> State (snd r) = ''Down''
        \<and> (\<forall>q \<in> set post. Device (snd q) = dev \<longrightarrow> State (snd q) = ''Down'')
        \<and> firstDown pre dev = None)"
proof (induction rs rule: rev_induct)
  case Nil
  show ?case by (simp add: firstDown_def downRun_def)
next
  case (snoc r0 rs)
  show ?case
  proof
    assume a: "firstDown (rs @ [r0]) dev = Some t"
    show "\<exists>pre r post.
        rs @ [r0] = pre @ r # post \<and> fst r = t \<and> Device (snd r) = dev
        \<and> State (snd r) = ''Down''
        \<and> (\<forall>q \<in> set post. Device (snd q) = dev \<longrightarrow> State (snd q) = ''Down'')
        \<and> firstDown pre dev = None"
    proof (cases "firstDown rs dev")
      case None
      with a have "Device (snd r0) = dev" "State (snd r0) = ''Down''" "fst r0 = t"
        by (auto simp add: firstDown_snoc split: if_splits)
      with None show ?thesis by (intro exI [of _ rs] exI [of _ r0] exI [of _ "[]"]) simp
    next
      case (Some t')
      with a have t: "t' = t" and ok: "Device (snd r0) = dev \<longrightarrow> State (snd r0) = ''Down''"
        by (auto simp add: firstDown_snoc split: if_splits)
      from Some t snoc.IH obtain pre r post where
        d: "rs = pre @ r # post" "fst r = t" "Device (snd r) = dev" "State (snd r) = ''Down''"
           "\<forall>q \<in> set post. Device (snd q) = dev \<longrightarrow> State (snd q) = ''Down''"
           "firstDown pre dev = None"
        by auto
      with ok show ?thesis
        by (intro exI [of _ pre] exI [of _ r] exI [of _ "post @ [r0]"]) auto
    qed
  next
    assume "\<exists>pre r post.
        rs @ [r0] = pre @ r # post \<and> fst r = t \<and> Device (snd r) = dev
        \<and> State (snd r) = ''Down''
        \<and> (\<forall>q \<in> set post. Device (snd q) = dev \<longrightarrow> State (snd q) = ''Down'')
        \<and> firstDown pre dev = None"
    then obtain pre r post where
      d: "rs @ [r0] = pre @ r # post" "fst r = t" "Device (snd r) = dev"
         "State (snd r) = ''Down''"
         "\<forall>q \<in> set post. Device (snd q) = dev \<longrightarrow> State (snd q) = ''Down''"
         "firstDown pre dev = None"
      by auto
    show "firstDown (rs @ [r0]) dev = Some t"
    proof (cases post rule: rev_cases)
      case Nil
      with d have "rs = pre" "r0 = r" by auto
      with d show ?thesis by (simp add: firstDown_snoc)
    next
      case (snoc post' q)
      with d have rs: "rs = pre @ r # post'" and q: "q = r0" by auto
      from d snoc have "\<forall>q \<in> set post'. Device (snd q) = dev \<longrightarrow> State (snd q) = ''Down''"
        by auto
      with rs d snoc.IH have "firstDown rs dev = Some t" by blast
      moreover from d snoc q have "Device (snd r0) = dev \<longrightarrow> State (snd r0) = ''Down''"
        by auto
      ultimately show ?thesis by (simp add: firstDown_snoc)
    qed
  qed
qed

text \<open>After the scan, a device is tracked with the time since which it has been down.\<close>

lemma map_of_foldl_trackReading:
  "map_of (foldl trackReading [] rs) dev = firstDown rs dev"
proof (induction rs rule: rev_induct)
  case Nil
  show ?case by (simp add: firstDown_def downRun_def)
next
  case (snoc r rs)
  then show ?case by (simp add: map_of_trackReading firstDown_snoc)
qed

lemma set_trackDroppedSince:
  "set (trackDroppedSince x evs) = {(dev, t). firstDown (readings x evs) dev = Some t}"
proof -
  have d: "distinct (map fst (trackDroppedSince x evs))"
    by (simp add: trackDroppedSince_readings distinct_foldl_trackReading)
  show ?thesis
    using map_of_eq_Some_iff [OF d]
    by (auto simp add: trackDroppedSince_readings map_of_foldl_trackReading)
qed

text \<open>
  C2. When the verdict is unhealthy, the timestamp of the cycle is set and the ten-minute
  history yields more than one event, or one event whose timestamp differs from that of
  the cycle, the drop analyzer reports exactly the devices \<open>dev\<close> for which the history
  ends with readings of \<open>dev\<close> in state "Down" (some reading records it down and no later
  reading records it in another state) and the first of these readings is at least four
  minutes before the timestamp of the cycle. Each such device has one message
  "dev dropped (relative time)"; the messages are sorted and joined with ", " after the
  prefix "ib port drop -- ". When there is no such device the reason is left as it was.
\<close>

theorem port_drop_reason:
  assumes "health cr = HealthStateTypeUnhealthy" and "\<not> time_IsZero (ts cr)"
    and "readAllIbstatEvents c s (time_Add (ts cr) (- 10 * Minute)) = Inr evs"
    and "1 < length evs \<or> (length evs = 1 \<and> Time (evs ! 0) \<noteq> ts cr)"
  shows "\<exists>dropped.
           distinct (map fst dropped)
           \<and> set dropped = {(dev, t). firstDown (readings x evs) dev = Some t
                                      \<and> 4 * Minute \<le> ts cr - t}
           \<and> reasonIbPortDrop (evaluateIbPortDrop x c s cr) =
               (if dropped = [] then reasonIbPortDrop cr
                else ''ib port drop -- ''
                       @ strings_Join (sort (map (dropText x (ts cr)) dropped)) '', '')"
proof -
  define tracked where "tracked = trackDroppedSince x evs"
  define dropped where "dropped = filter (\<lambda>e. 4 * Minute \<le> ts cr - snd e) tracked"
  have ne: "evs \<noteq> []" using assms(4) by auto
  have bucket: "eventBucket c \<noteq> None"
    using readAllIbstatEvents_nonempty_bucket [OF assms(3) ne] .
  have dist: "distinct (map fst tracked)"
    by (simp add: tracked_def trackDroppedSince_readings distinct_foldl_trackReading)
  have d1: "distinct (map fst dropped)"
    unfolding dropped_def using dist by (rule distinct_map_filter)
  have d2: "set dropped = {(dev, t). firstDown (readings x evs) dev = Some t
                                      \<and> 4 * Minute \<le> ts cr - t}"
    by (auto simp add: dropped_def tracked_def set_trackDroppedSince)
  have msgs: "List.map_filter (dropMsg x (ts cr)) tracked = map (dropText x (ts cr)) dropped"
    unfolding dropped_def
    by (simp only: dropMsg_eq [abs_def] map_filter_if)
  have d3: "reasonIbPortDrop (evaluateIbPortDrop x c s cr) =
               (if dropped = [] then reasonIbPortDrop cr
                else ''ib port drop -- ''
                       @ strings_Join (sort (map (dropText x (ts cr)) dropped)) '', '')"
    using assms bucket ne
    by (auto simp add: evaluateIbPortDrop_def Let_def tracked_def [symmetric] msgs)
  from d1 d2 d3 show ?thesis by blast
qed

lemma dropHistory_read:
  "readAllIbstatEvents historyComponent dropHistory
     (time_Add (1000 + 5 * Minute) (- 10 * Minute)) = Inr dropHistory"
  by (simp add: readAllIbstatEvents_def historyComponent_def testComponent_def specBucket_def
        dropHistory_def ibstatEvent_def time_Add_def Minute_def)

lemma dropHistory_tracked:
  "trackDroppedSince testExternals dropHistory
     = [(''mlx5_0'', 1000), (''mlx5_1'', 1000 + 5 * Minute)]"
  by (simp add: trackDroppedSince_def dropHistory_def ibstatEvent_def parseIBPortsFromEvent_def
        testExternals_def testUnmarshal_def trackDroppedPort_def Minute_def Let_def)

lemma dropHistory_reason:
  "reasonIbPortDrop (evaluateIbPortDrop testExternals historyComponent dropHistory
      ((newCheckResult (1000 + 5 * Minute))\<lparr>health := HealthStateTypeUnhealthy\<rparr>))
     = ''ib port drop -- mlx5_0 dropped a while ago''"
  using dropHistory_read
  by (simp add: evaluateIbPortDrop_def Let_def newCheckResult_def dropHistory_tracked
        time_IsZero_def historyComponent_def testComponent_def dropMsg_def
        List.map_filter_simps)
     (simp add: dropHistory_def testExternals_def time_Sub_def maxDuration_def
        minDuration_def Minute_def)

theorem port_drop_reason_witness:
  "health ((newCheckResult (1000 + 5 * Minute))\<lparr>health := HealthStateTypeUnhealthy\<rparr>)
     = HealthStateTypeUnhealthy
   \<and> \<not> time_IsZero
         (ts ((newCheckResult (1000 + 5 * Minute))\<lparr>health := HealthStateTypeUnhealthy\<rparr>))
   \<and> readAllIbstatEvents historyComponent dropHistory
        (time_Add (ts ((newCheckResult (1000 + 5 * Minute))
                         \<lparr>health := HealthStateTypeUnhealthy\<rparr>)) (- 10 * Minute))
       = Inr dropHistory
   \<and> 1 < length dropHistory
   \<and> firstDown (readings testExternals dropHistory) ''mlx5_0'' = Some 1000
   \<and> firstDown (readings testExternals dropHistory) ''mlx5_1'' = Some (1000 + 5 * Minute)
   \<and> reasonIbPortDrop (evaluateIbPortDrop testExternals historyComponent dropHistory
        ((newCheckResult (1000 + 5 * Minute))\<lparr>health := HealthStateTypeUnhealthy\<rparr>))
       = ''ib port drop -- mlx5_0 dropped a while ago''"
proof -
  define cr where
    "cr = (newCheckResult (1000 + 5 * Minute))\<lparr>health := HealthStateTypeUnhealthy\<rparr>"
  have h1: "health cr = HealthStateTypeUnhealthy" by (simp add: cr_def)
  have h2: "\<not> time_IsZero (ts cr)"
    by (simp add: cr_def newCheckResult_def time_IsZero_def Minute_def)
  have h3: "readAllIbstatEvents historyComponent dropHistory
              (time_Add (ts cr) (- 10 * Minute)) = Inr dropHistory"
    using dropHistory_read by (simp add: cr_def newCheckResult_def)
  have h4: "1 < length dropHistory \<or> (length dropHistory = 1 \<and> Time (dropHistory ! 0) \<noteq> ts cr)"
    by (simp add: dropHistory_def)
  have f0: "firstDown (readings testExternals dropHistory) ''mlx5_0'' = Some 1000"
    using map_of_foldl_trackReading [of "readings testExternals dropHistory" "''mlx5_0''"]
    by (simp add: trackDroppedSince_readings [symmetric] dropHistory_tracked)
  have f1: "firstDown (readings testExternals dropHistory) ''mlx5_1''
              = Some (1000 + 5 * Minute)"
    using map_of_foldl_trackReading [of "readings testExternals dropHistory" "''mlx5_1''"]
    by (simp add: trackDroppedSince_readings [symmetric] dropHistory_tracked)
  from port_drop_reason [OF h1 h2 h3 h4, where x = testExternals] h1 h2 h3 h4 f0 f1
    dropHistory_reason
  show ?thesis
    unfolding cr_def [symmetric] by (simp add: dropHistory_def)
qed

subsection \<open>The port flap\<close>

text \<open>The scan of the flap analyzer is one pass over the ports of the recent events.\<close>

lemma trackStateTransitions_recentPorts_from:
  "foldl (\<lambda>stateTransitions ev.
            if time_Sub now (Time ev) > 4 * Minute then stateTransitions
            else foldl trackTransition stateTransitions (parseIBPortsFromEvent x ev)) m evs
     = foldl trackTransition m (recentPorts x now evs)"
  by (induction evs arbitrary: m)
     (auto simp add: recentPorts_def time_Sub_over_four_minutes)

lemma trackStateTransitions_recentPorts:
  "trackStateTransitions x now evs = foldl trackTransition [] (recentPorts x now evs)"
  by (simp add: trackStateTransitions_def trackStateTransitions_recentPorts_from)

lemma map_of_trackTransition:
  "map_of (trackTransition m port) dev =
     (if Device port = dev
      then (case map_of m dev of
              None \<Rightarrow> Some [State port]
            | Some prev \<Rightarrow>
                if prev = [] then Some [State port]
                else if last prev \<noteq> State port then Some (prev @ [State port])
                else Some prev)
      else map_of m dev)"
  by (auto simp add: trackTransition_def update_conv' split: option.splits)

lemma distinct_trackTransition:
  "distinct (map fst m) \<Longrightarrow> distinct (map fst (trackTransition m port))"
  by (simp add: trackTransition_def distinct_update split: option.splits)

lemma distinct_foldl_trackTransition:
  "distinct (map fst m) \<Longrightarrow> distinct (map fst (foldl trackTransition m ports))"
  by (induction ports arbitrary: m) (simp_all add: distinct_trackTransition)

lemma remdups_adj_snoc:
  "remdups_adj (xs @ [y]) =
     (if xs = [] then [y]
      else if last xs = y then remdups_adj xs
      else remdups_adj xs @ [y])"
proof (cases xs rule: rev_cases)
  case Nil
  then show ?thesis by simp
next
  case (snoc zs z)
  then show ?thesis by (simp add: remdups_adj_append_two)
qed

lemma collapsedStates_snoc:
  "collapsedStates (ports @ [port]) dev =
     (if Device port = dev
      then (if collapsedStates ports dev = [] then [State port]
            else if last (collapsedStates ports dev) \<noteq> State port
            then collapsedStates ports dev @ [State port]
            else collapsedStates ports dev)
      else collapsedStates ports dev)"
  by (simp add: collapsedStates_def remdups_adj_snoc last_map)

text \<open>After the scan, a device that was seen is tracked with its collapsed states.\<close>

lemma map_of_foldl_trackTransition:
  "map_of (foldl trackTransition [] ports) dev =
     (if collapsedStates ports dev = [] then None else Some (collapsedStates ports dev))"
proof (induction ports rule: rev_induct)
  case Nil
  show ?case by (simp add: collapsedStates_def)
next
  case (snoc port ports)
  then show ?case by (simp add: map_of_trackTransition collapsedStates_snoc)
qed

lemma set_trackStateTransitions:
  "set (trackStateTransitions x now evs) =
     {(dev, trs). trs = collapsedStates (recentPorts x now evs) dev \<and> trs \<noteq> []}"
proof -
  have d: "distinct (map fst (trackStateTransitions x now evs))"
    by (simp add: trackStateTransitions_recentPorts distinct_foldl_trackTransition)
  have mem: "(dev, trs) \<in> set (trackStateTransitions x now evs)
               \<longleftrightarrow> map_of (trackStateTransitions x now evs) dev = Some trs" for dev trs
    using map_of_eq_Some_iff [OF d, of dev trs] by simp
  have "(dev, trs) \<in> set (trackStateTransitions x now evs)
          \<longleftrightarrow> trs = collapsedStates (recentPorts x now evs) dev \<and> trs \<noteq> []" for dev trs
    unfolding mem
    by (auto simp add: trackStateTransitions_recentPorts map_of_foldl_trackTransition)
  then show ?thesis by auto
qed

text \<open>
  C3, as the code has it. The flap analyzer does not look at the verdict: its outcome is
  the same for every value of the health field. When the timestamp of the cycle is set,
  the ten-minute history yields at least two events and the first of them is not dated
  after the timestamp of the cycle, the analyzer reports exactly the devices whose
  collapsed sequence of states, over the events at most four minutes old, has at least two
  entries. Each such device has one message "dev s1 -> s2 -> ..." showing at most the
  last four of these states; the messages are sorted and joined with ", " after the prefix
  "ib port flap -- ". With fewer than two events, or a first event dated after the
  timestamp of the cycle, no device is reported and the reason is left as it was.
\<close>

theorem port_flap_reason:
  assumes "\<not> time_IsZero (ts cr)"
    and "readAllIbstatEvents c s (time_Add (ts cr) (- 10 * Minute)) = Inr evs"
  shows "\<exists>flapping.
           distinct (map fst flapping)
           \<and> set flapping =
               {(dev, trs). 2 \<le> length evs \<and> Time (evs ! 0) \<le> ts cr
                            \<and> trs = collapsedStates (recentPorts x (ts cr) evs) dev
                            \<and> 2 \<le> length trs}
           \<and> (\<forall>h. reasonIbPortFlap (evaluateIbPortFlap x c s (cr\<lparr>health := h\<rparr>)) =
                 (if flapping = [] then reasonIbPortFlap cr
                  else ''ib port flap -- ''
                         @ strings_Join (sort (map flapText flapping)) '', ''))"
proof (cases "2 \<le> length evs \<and> Time (evs ! 0) \<le> ts cr")
  case False
  have "reasonIbPortFlap (evaluateIbPortFlap x c s (cr\<lparr>health := h\<rparr>)) = reasonIbPortFlap cr"
    for h
    using False assms by (auto simp add: evaluateIbPortFlap_def Let_def time_Sub_negative)
  with False show ?thesis by (intro exI [of _ "[]"]) auto
next
  case True
  define tracked where "tracked = trackStateTransitions x (ts cr) evs"
  define flapping where "flapping = filter (\<lambda>e. 2 \<le> length (snd e)) tracked"
  have ne: "evs \<noteq> []" using True by auto
  have bucket: "eventBucket c \<noteq> None"
    using readAllIbstatEvents_nonempty_bucket [OF assms(2) ne] .
  have dist: "distinct (map fst tracked)"
    by (simp add: tracked_def trackStateTransitions_recentPorts distinct_foldl_trackTransition)
  have d1: "distinct (map fst flapping)"
    unfolding flapping_def using dist by (rule distinct_map_filter)
  have d2: "set flapping =
               {(dev, trs). 2 \<le> length evs \<and> Time (evs ! 0) \<le> ts cr
                            \<and> trs = collapsedStates (recentPorts x (ts cr) evs) dev
                            \<and> 2 \<le> length trs}"
    using True by (auto simp add: flapping_def tracked_def set_trackStateTransitions)
  have msgs: "List.map_filter flapMsg tracked = map flapText flapping"
    unfolding flapping_def by (simp only: flapMsg_eq [abs_def] map_filter_if)
  have empty: "tracked = [] \<Longrightarrow> flapping = []" by (simp add: flapping_def)
  have d3: "reasonIbPortFlap (evaluateIbPortFlap x c s (cr\<lparr>health := h\<rparr>)) =
                 (if flapping = [] then reasonIbPortFlap cr
                  else ''ib port flap -- ''
                         @ strings_Join (sort (map flapText flapping)) '', '')" for h
    using assms bucket True empty
    by (auto simp add: evaluateIbPortFlap_def Let_def tracked_def [symmetric] msgs
                       time_Sub_negative)
  from d1 d2 d3 show ?thesis by blast
qed

lemma flapHistory_read:
  "readAllIbstatEvents historyComponent flapHistory
     (time_Add (1000 + 3 * Minute) (- 10 * Minute)) = Inr flapHistory"
  by (simp add: readAllIbstatEvents_def historyComponent_def testComponent_def specBucket_def
        flapHistory_def ibstatEvent_def time_Add_def Minute_def)

lemma flapHistory_tracked:
  "trackStateTransitions testExternals (1000 + 3 * Minute) flapHistory
     = [(''mlx5_0'', [''Down'', ''Active'', ''Down'']), (''mlx5_1'', [''Down''])]"
  by (simp add: trackStateTransitions_def flapHistory_def ibstatEvent_def
        parseIBPortsFromEvent_def testExternals_def testUnmarshal_def trackTransition_def
        time_Sub_def maxDuration_def minDuration_def Minute_def Let_def)

lemma flapHistory_reason:
  "reasonIbPortFlap (evaluateIbPortFlap testExternals historyComponent flapHistory
      (newCheckResult (1000 + 3 * Minute)))
     = ''ib port flap -- mlx5_0 Down -> Active -> Down''"
  using flapHistory_read
  by (simp add: evaluateIbPortFlap_def Let_def newCheckResult_def flapHistory_tracked
        time_IsZero_def historyComponent_def testComponent_def flapMsg_def
        List.map_filter_simps)
     (simp add: flapHistory_def ibstatEvent_def time_Sub_def maxDuration_def minDuration_def
        Minute_def)

theorem port_flap_reason_witness:
  "\<not> time_IsZero (ts (newCheckResult (1000 + 3 * Minute)))
   \<and> readAllIbstatEvents historyComponent flapHistory
        (time_Add (ts (newCheckResult (1000 + 3 * Minute))) (- 10 * Minute))
       = Inr flapHistory
   \<and> length flapHistory = 3
   \<and> Time (flapHistory ! 0) \<le> ts (newCheckResult (1000 + 3 * Minute))
   \<and> collapsedStates (recentPorts testExternals (1000 + 3 * Minute) flapHistory) ''mlx5_0''
       = [''Down'', ''Active'', ''Down'']
   \<and> collapsedStates (recentPorts testExternals (1000 + 3 * Minute) flapHistory) ''mlx5_1''
       = [''Down'']
   \<and> reasonIbPortFlap (evaluateIbPortFlap testExternals historyComponent flapHistory
        (newCheckResult (1000 + 3 * Minute)))
       = ''ib port flap -- mlx5_0 Down -> Active -> Down''"
proof -
  define cr where "cr = newCheckResult (1000 + 3 * Minute)"
  have h1: "\<not> time_IsZero (ts cr)"
    by (simp add: cr_def newCheckResult_def time_IsZero_def Minute_def)
  have h2: "readAllIbstatEvents historyComponent flapHistory
              (time_Add (ts cr) (- 10 * Minute)) = Inr flapHistory"
    using flapHistory_read by (simp add: cr_def newCheckResult_def)
  have h3: "length flapHistory = 3 \<and> Time (flapHistory ! 0) \<le> ts cr"
    by (simp add: flapHistory_def ibstatEvent_def cr_def newCheckResult_def Minute_def)
  have c0: "collapsedStates (recentPorts testExternals (1000 + 3 * Minute) flapHistory)
              ''mlx5_0'' = [''Down'', ''Active'', ''Down'']"
    using map_of_foldl_trackTransition
            [of "recentPorts testExternals (1000 + 3 * Minute) flapHistory" "''mlx5_0''"]
    by (simp add: trackStateTransitions_recentPorts [symmetric] flapHistory_tracked
             split: if_splits)
  have c1: "collapsedStates (recentPorts testExternals (1000 + 3 * Minute) flapHistory)
              ''mlx5_1'' = [''Down'']"
    using map_of_foldl_trackTransition
            [of "recentPorts testExternals (1000 + 3 * Minute) flapHistory" "''mlx5_1''"]
    by (simp add: trackStateTransitions_recentPorts [symmetric] flapHistory_tracked
             split: if_splits)
  from port_flap_reason [OF h1 h2, where x = testExternals] h1 h2 h3 c0 c1 flapHistory_reason
  show ?thesis
    unfolding cr_def [symmetric] by simp
qed

text \<open>
  C3 as stated fails: the history holds two events, both dated after the cycle that reads
  them and so at most four minutes old; over them the device goes from "Down" to
  "Active", yet the analyzer sets no flap reason, because it returns when the first event
  is dated after the timestamp of the cycle.
\<close>

theorem port_flap_future_history_counterexample:
  "\<not> time_IsZero (ts (newCheckResult 1000))
   \<and> readAllIbstatEvents historyComponent futureHistory
        (time_Add (ts (newCheckResult 1000)) (- 10 * Minute)) = Inr futureHistory
   \<and> length futureHistory = 2
   \<and> collapsedStates (recentPorts testExternals 1000 futureHistory) ''mlx5_0''
       = [''Down'', ''Active'']
   \<and> reasonIbPortFlap (evaluateIbPortFlap testExternals historyComponent futureHistory
        (newCheckResult 1000)) = ''''"
proof -
  have r: "readAllIbstatEvents historyComponent futureHistory
             (time_Add 1000 (- 10 * Minute)) = Inr futureHistory"
    by (simp add: readAllIbstatEvents_def historyComponent_def testComponent_def
          specBucket_def futureHistory_def ibstatEvent_def time_Add_def Minute_def)
  have c: "collapsedStates (recentPorts testExternals 1000 futureHistory) ''mlx5_0''
             = [''Down'', ''Active'']"
    by (simp add: collapsedStates_def recentPorts_def futureHistory_def ibstatEvent_def
          parseIBPortsFromEvent_def testExternals_def testUnmarshal_def Minute_def Let_def)
  have e: "reasonIbPortFlap (evaluateIbPortFlap testExternals historyComponent futureHistory
             (newCheckResult 1000)) = ''''"
    using r
    by (simp add: evaluateIbPortFlap_def newCheckResult_def time_IsZero_def
          historyComponent_def testComponent_def)
       (simp add: futureHistory_def ibstatEvent_def time_Sub_def maxDuration_def
          minDuration_def Minute_def)
  from r c e show ?thesis
    by (simp add: newCheckResult_def time_IsZero_def futureHistory_def)
qed

end
